theory Spec2Isabelle
  imports Complex_Main
begin

section \<open>Data model (app/models/database.py)\<close>

text \<open>
  Python floats are modelled as real numbers: rounding is not modelled. The special
  values of IEEE arithmetic (infinities, NaN) are modelled only where pandas produces
  them, in the signal library below. Timestamps are left out of every row.
\<close>

datatype OrderType = BUY | SELL

datatype OrderStatus = PENDING | COMPLETED | FAILED | CANCELLED

record Order =
  o_id :: nat
  o_order_type :: OrderType
  o_coin :: string
  o_currency :: string
  o_amount :: real
  o_price :: real
  o_total :: real
  o_status :: OrderStatus
  o_order_id :: "string option"
  o_strategy_id :: "nat option"
  o_error_message :: "string option"

record Trade =
  t_id :: nat
  t_order_id :: nat
  t_coin :: string
  t_currency :: string
  t_trade_type :: OrderType
  t_amount :: real
  t_price :: real
  t_total :: real
  t_fee :: real
  t_profit :: "real option"

record Balance =
  b_coin :: string
  b_total :: real
  b_available :: real
  b_in_use :: real
  b_avg_buy_price :: "real option"

text \<open>
  The part of the store the trading engine works on. \<open>balances\<close> is keyed by coin (the
  column is unique), so \<open>query(Balance).filter(Balance.coin == c).first()\<close> is a lookup.
  A primary key is the position of the row in its table, counted from 1.
\<close>

record store =
  orders :: "Order list"
  trades :: "Trade list"
  balances :: "string \<Rightarrow> Balance option"

datatype py_error = ZeroDivisionError | AttributeError | IndexError

section \<open>Settings and the exchange client (app/core/config.py, app/services/bithumb_api.py)\<close>

record Settings =
  trading_enabled :: bool
  default_currency :: string

text \<open>
  An order call of the client returns an optional dictionary; its values are kept as
  strings. \<open>get_balance\<close> always returns a dictionary with the four keys.
\<close>

type_synonym response = "(string \<times> string) list"

record balance_data =
  bd_total :: real
  bd_available :: real
  bd_in_use :: real
  bd_avg_buy_price :: "real option"

record candle =
  c_open :: real
  c_high :: real
  c_low :: real
  c_close :: real
  c_volume :: real

record BithumbAPI =
  get_current_price :: "string \<Rightarrow> real option"
  get_balance :: "string \<Rightarrow> balance_data"
  get_ohlcv :: "string \<Rightarrow> candle list option"
  buy_limit_order :: "string \<Rightarrow> real \<Rightarrow> real \<Rightarrow> response option"
  buy_market_order :: "string \<Rightarrow> real \<Rightarrow> response option"
  sell_limit_order :: "string \<Rightarrow> real \<Rightarrow> real \<Rightarrow> response option"
  sell_market_order :: "string \<Rightarrow> real \<Rightarrow> response option"

section \<open>Trading engine (app/services/trading_engine.py)\<close>

definition MIN_ORDER_AMOUNT_KRW :: real where
  "MIN_ORDER_AMOUNT_KRW = 5500"

text \<open>\<open>db.add(order); db.commit()\<close>: the row gets the next primary key.\<close>

definition add_order :: "store \<Rightarrow> Order \<Rightarrow> Order \<times> store" where
  "add_order db order =
     (let order' = order\<lparr>o_id := Suc (length (orders db))\<rparr>
      in (order', db\<lparr>orders := orders db @ [order']\<rparr>))"

definition new_order ::
  "OrderType \<Rightarrow> string \<Rightarrow> string \<Rightarrow> real \<Rightarrow> real \<Rightarrow> real \<Rightarrow> OrderStatus \<Rightarrow>
   string option \<Rightarrow> nat option \<Rightarrow> string option \<Rightarrow> Order" where
  "new_order ty coin cur amount price tot st oid sid err =
     \<lparr>o_id = 0, o_order_type = ty, o_coin = coin, o_currency = cur, o_amount = amount,
      o_price = price, o_total = tot, o_status = st, o_order_id = oid,
      o_strategy_id = sid, o_error_message = err\<rparr>"

text \<open>\<open>_create_trade_record\<close>: the profit of a sell is computed from the balance row as it
  is in the store when the function is called; \<open>balance.avg_buy_price\<close> is tested for
  truth, so an absent or zero average gives no profit.\<close>

definition create_trade_record :: "store \<Rightarrow> Order \<Rightarrow> store" where
  "create_trade_record db order =
     (let profit =
        (if o_order_type order = SELL then
           (case balances db (o_coin order) of
              None \<Rightarrow> None
            | Some balance \<Rightarrow>
                (case b_avg_buy_price balance of
                   None \<Rightarrow> None
                 | Some avg \<Rightarrow>
                     if avg \<noteq> 0 then Some ((o_price order - avg) * o_amount order)
                     else None))
         else None);
        trade = \<lparr>t_id = Suc (length (trades db)), t_order_id = o_id order,
                 t_coin = o_coin order, t_currency = o_currency order,
                 t_trade_type = o_order_type order, t_amount = o_amount order,
                 t_price = o_price order, t_total = o_total order,
                 t_fee = o_total order * 0.0005, t_profit = profit\<rparr>
      in db\<lparr>trades := trades db @ [trade]\<rparr>)"

text \<open>The balance row of a coin, or the fresh row \<open>_update_balance\<close> adds when there is
  none.\<close>

definition balance_or_new :: "store \<Rightarrow> string \<Rightarrow> Balance" where
  "balance_or_new db coin =
     (case balances db coin of
        Some b \<Rightarrow> b
      | None \<Rightarrow> \<lparr>b_coin = coin, b_total = 0, b_available = 0, b_in_use = 0,
                  b_avg_buy_price = None\<rparr>)"

text \<open>\<open>_update_balance\<close>: \<open>amount\<close> is positive for a buy and negative for a sell.\<close>

definition update_balance :: "store \<Rightarrow> string \<Rightarrow> real \<Rightarrow> real \<Rightarrow> store" where
  "update_balance db coin amount price =
     (let balance = balance_or_new db coin;
        balance' =
          (if amount > 0 then
             (let total_value =
                    b_total balance * (case b_avg_buy_price balance of None \<Rightarrow> 0 | Some a \<Rightarrow> a)
                    + amount * price;
                  new_total = b_total balance + amount
              in balance\<lparr>b_total := new_total,
                   b_avg_buy_price :=
                     Some (if new_total > 0 then total_value / new_total else price)\<rparr>)
           else balance\<lparr>b_total := b_total balance + amount\<rparr>)
      in db\<lparr>balances := (balances db)(coin \<mapsto> balance'\<lparr>b_available := b_total balance'\<rparr>)\<rparr>)"

text \<open>\<open>result and result.get("status") == "0000"\<close>: an empty dictionary is false.\<close>

definition is_success :: "response option \<Rightarrow> bool" where
  "is_success result =
     (case result of
        None \<Rightarrow> False
      | Some r \<Rightarrow> r \<noteq> [] \<and> map_of r ''status'' = Some ''0000'')"

text \<open>\<open>result.get("message", "Unknown error") if result else "API call failed"\<close>\<close>

definition error_msg_of :: "response option \<Rightarrow> string" where
  "error_msg_of result =
     (case result of
        None \<Rightarrow> ''API call failed''
      | Some r \<Rightarrow>
          if r = [] then ''API call failed''
          else (case map_of r ''message'' of None \<Rightarrow> ''Unknown error'' | Some m \<Rightarrow> m))"

definition result_order_id :: "response option \<Rightarrow> string option" where
  "result_order_id result = (case result of None \<Rightarrow> None | Some r \<Rightarrow> map_of r ''order_id'')"

text \<open>\<open>if price is None: price = self.api.get_current_price(coin)\<close>\<close>

definition resolve_price :: "BithumbAPI \<Rightarrow> string \<Rightarrow> real option \<Rightarrow> real option" where
  "resolve_price api coin price =
     (case price of None \<Rightarrow> get_current_price api coin | Some p \<Rightarrow> Some p)"

text \<open>The minimum-order adjustment, for a price that is not zero.\<close>

definition adjusted_amount :: "real \<Rightarrow> real \<Rightarrow> real" where
  "adjusted_amount amount price =
     (if amount * price < MIN_ORDER_AMOUNT_KRW then (MIN_ORDER_AMOUNT_KRW * 1.1) / price
      else amount)"

text \<open>
  \<open>execute_buy_order\<close>. The division of the minimum-order adjustment raises
  ZeroDivisionError for a price of zero; nothing has been persisted at that point.
\<close>

definition execute_buy_order ::
  "Settings \<Rightarrow> BithumbAPI \<Rightarrow> store \<Rightarrow> string \<Rightarrow> real \<Rightarrow> real option \<Rightarrow> nat option \<Rightarrow>
   py_error + (Order \<times> store)" where
  "execute_buy_order settings api db coin amount price strategy_id =
     (case resolve_price api coin price of
        None \<Rightarrow>
          Inr (add_order db (new_order BUY coin (default_currency settings) amount 0 0 FAILED
                 None strategy_id (Some ''Failed to get current price'')))
      | Some price \<Rightarrow>
          if amount * price < MIN_ORDER_AMOUNT_KRW \<and> price = 0 then Inl ZeroDivisionError
          else
            (let amount = adjusted_amount amount price;
                 total = amount * price
             in if trading_enabled settings then
                  (let result = (if price \<noteq> 0 then buy_limit_order api coin price amount
                                 else buy_market_order api coin amount)
                   in if is_success result then
                        (let (order, db1) =
                               add_order db (new_order BUY coin (default_currency settings)
                                 amount price total COMPLETED (result_order_id result)
                                 strategy_id None);
                             db2 = create_trade_record db1 order;
                             db3 = update_balance db2 coin amount price
                         in Inr (order, db3))
                      else
                        Inr (add_order db (new_order BUY coin (default_currency settings)
                               amount price total FAILED None strategy_id
                               (Some (error_msg_of result)))))
                else
                  Inr (add_order db (new_order BUY coin (default_currency settings)
                         amount price total PENDING None strategy_id
                         (Some ''Trading is disabled'')))))"

definition execute_sell_order ::
  "Settings \<Rightarrow> BithumbAPI \<Rightarrow> store \<Rightarrow> string \<Rightarrow> real \<Rightarrow> real option \<Rightarrow> nat option \<Rightarrow>
   py_error + (Order \<times> store)" where
  "execute_sell_order settings api db coin amount price strategy_id =
     (case resolve_price api coin price of
        None \<Rightarrow>
          Inr (add_order db (new_order SELL coin (default_currency settings) amount 0 0 FAILED
                 None strategy_id (Some ''Failed to get current price'')))
      | Some price \<Rightarrow>
          if amount * price < MIN_ORDER_AMOUNT_KRW \<and> price = 0 then Inl ZeroDivisionError
          else
            (let amount = adjusted_amount amount price;
                 total = amount * price
             in if trading_enabled settings then
                  (let result = (if price \<noteq> 0 then sell_limit_order api coin price amount
                                 else sell_market_order api coin amount)
                   in if is_success result then
                        (let (order, db1) =
                               add_order db (new_order SELL coin (default_currency settings)
                                 amount price total COMPLETED (result_order_id result)
                                 strategy_id None);
                             db2 = create_trade_record db1 order;
                             db3 = update_balance db2 coin (- amount) price
                         in Inr (order, db3))
                      else
                        Inr (add_order db (new_order SELL coin (default_currency settings)
                               amount price total FAILED None strategy_id
                               (Some (error_msg_of result)))))
                else
                  Inr (add_order db (new_order SELL coin (default_currency settings)
                         amount price total PENDING None strategy_id
                         (Some ''Trading is disabled'')))))"

section \<open>Fixed inputs used in the examples\<close>

definition no_holdings :: balance_data where
  "no_holdings = \<lparr>bd_total = 0, bd_available = 0, bd_in_use = 0, bd_avg_buy_price = None\<rparr>"

definition fixed_api ::
  "real option \<Rightarrow> balance_data \<Rightarrow> candle list option \<Rightarrow> response option \<Rightarrow> BithumbAPI" where
  "fixed_api price bal df resp =
     \<lparr>get_current_price = (\<lambda>coin. price), get_balance = (\<lambda>coin. bal),
      get_ohlcv = (\<lambda>coin. df),
      buy_limit_order = (\<lambda>coin p a. resp), buy_market_order = (\<lambda>coin a. resp),
      sell_limit_order = (\<lambda>coin p a. resp), sell_market_order = (\<lambda>coin a. resp)\<rparr>"

definition empty_store :: store where
  "empty_store = \<lparr>orders = [], trades = [], balances = Map.empty\<rparr>"

definition default_settings :: Settings where
  "default_settings = \<lparr>trading_enabled = False, default_currency = ''KRW''\<rparr>"

definition live_settings :: Settings where
  "live_settings = \<lparr>trading_enabled = True, default_currency = ''KRW''\<rparr>"

definition ok_response :: response where
  "ok_response = [(''status'', ''0000''), (''order_id'', ''C0101000000000000001'')]"


section \<open>Sequences of balance updates\<close>

text \<open>
  The balance updates the engine performs for one coin, one after the other, each given by
  its signed amount and its price; and the condition that no sell takes more than the
  total recorded at that point.
\<close>

fun update_balances :: "store \<Rightarrow> string \<Rightarrow> (real \<times> real) list \<Rightarrow> store" where
  "update_balances db coin [] = db"
| "update_balances db coin ((amount, price) # ups) =
     update_balances (update_balance db coin amount price) coin ups"

fun within_holdings :: "real \<Rightarrow> (real \<times> real) list \<Rightarrow> bool" where
  "within_holdings t [] = True"
| "within_holdings t ((amount, price) # ups) =
     (0 \<le> t + amount \<and> within_holdings (t + amount) ups)"

definition btc_position :: "real \<Rightarrow> real option \<Rightarrow> store" where
  "btc_position t avg =
     \<lparr>orders = [], trades = [],
      balances = [''BTC'' \<mapsto> \<lparr>b_coin = ''BTC'', b_total = t, b_available = t, b_in_use = 0,
                                b_avg_buy_price = avg\<rparr>]\<rparr>"

section \<open>Signal library (app/services/strategy.py)\<close>

text \<open>
  A value of a pandas float series: a finite number (taken as a real), an infinity or NaN.
  The sign of a zero is not modelled: a positive number divided by zero is taken as
  \<open>+inf\<close>. Every comparison with NaN is false.
\<close>

datatype fval = Fin real | PInf | NInf | NaN

fun fneg :: "fval \<Rightarrow> fval" where
  "fneg (Fin x) = Fin (- x)"
| "fneg PInf = NInf"
| "fneg NInf = PInf"
| "fneg NaN = NaN"

fun fadd :: "fval \<Rightarrow> fval \<Rightarrow> fval" where
  "fadd NaN b = NaN"
| "fadd a NaN = NaN"
| "fadd (Fin x) (Fin y) = Fin (x + y)"
| "fadd PInf NInf = NaN"
| "fadd NInf PInf = NaN"
| "fadd PInf b = PInf"
| "fadd NInf b = NInf"
| "fadd (Fin x) b = b"

definition fsub :: "fval \<Rightarrow> fval \<Rightarrow> fval" where
  "fsub a b = fadd a (fneg b)"

fun fsign :: "fval \<Rightarrow> int" where
  "fsign (Fin x) = (if x > 0 then 1 else if x < 0 then - 1 else 0)"
| "fsign PInf = 1"
| "fsign NInf = - 1"
| "fsign NaN = 0"

definition finf :: "int \<Rightarrow> fval" where
  "finf s = (if s > 0 then PInf else if s < 0 then NInf else NaN)"

fun fmul :: "fval \<Rightarrow> fval \<Rightarrow> fval" where
  "fmul NaN b = NaN"
| "fmul a NaN = NaN"
| "fmul (Fin x) (Fin y) = Fin (x * y)"
| "fmul a b = finf (fsign a * fsign b)"

fun fdiv :: "fval \<Rightarrow> fval \<Rightarrow> fval" where
  "fdiv NaN b = NaN"
| "fdiv a NaN = NaN"
| "fdiv (Fin x) (Fin y) = (if y \<noteq> 0 then Fin (x / y) else finf (fsign (Fin x)))"
| "fdiv (Fin x) b = Fin 0"
| "fdiv a (Fin y) = finf (fsign a * (if y < 0 then - 1 else 1))"
| "fdiv a b = NaN"

fun flt :: "fval \<Rightarrow> fval \<Rightarrow> bool" where
  "flt NaN b = False"
| "flt a NaN = False"
| "flt (Fin x) (Fin y) = (x < y)"
| "flt a PInf = (a \<noteq> PInf)"
| "flt NInf b = (b \<noteq> NInf)"
| "flt a b = False"

definition fle :: "fval \<Rightarrow> fval \<Rightarrow> bool" where
  "fle a b = (a \<noteq> NaN \<and> b \<noteq> NaN \<and> (a = b \<or> flt a b))"

definition fgt :: "fval \<Rightarrow> fval \<Rightarrow> bool" where
  "fgt a b = flt b a"

definition fge :: "fval \<Rightarrow> fval \<Rightarrow> bool" where
  "fge a b = fle b a"

text \<open>
  \<open>series.rolling(window=w)\<close> at position \<open>i\<close> (from 0): the window is the \<open>w\<close> values
  ending at \<open>i\<close>; with fewer than \<open>w\<close> values, or an empty window, the result is NaN.
\<close>

definition window :: "nat \<Rightarrow> 'a list \<Rightarrow> nat \<Rightarrow> 'a list" where
  "window w xs i = take w (drop (i + 1 - w) xs)"

definition rolling_mean :: "nat \<Rightarrow> real list \<Rightarrow> nat \<Rightarrow> fval" where
  "rolling_mean w xs i =
     (if w = 0 \<or> i + 1 < w then NaN else Fin (sum_list (window w xs i) / real w))"

text \<open>\<open>.std()\<close> is the sample standard deviation; a window of one value gives NaN.\<close>

definition rolling_std :: "nat \<Rightarrow> real list \<Rightarrow> nat \<Rightarrow> fval" where
  "rolling_std w xs i =
     (if w < 2 \<or> i + 1 < w then NaN
      else (let win = window w xs i; m = sum_list win / real w
            in Fin (sqrt (sum_list (map (\<lambda>x. (x - m) ^ 2) win) / real (w - 1)))))"

definition rolling_min :: "nat \<Rightarrow> real list \<Rightarrow> nat \<Rightarrow> fval" where
  "rolling_min w xs i =
     (if w = 0 \<or> i + 1 < w then NaN
      else (case window w xs i of [] \<Rightarrow> NaN | x # rest \<Rightarrow> Fin (fold min rest x)))"

definition rolling_max :: "nat \<Rightarrow> real list \<Rightarrow> nat \<Rightarrow> fval" where
  "rolling_max w xs i =
     (if w = 0 \<or> i + 1 < w then NaN
      else (case window w xs i of [] \<Rightarrow> NaN | x # rest \<Rightarrow> Fin (fold max rest x)))"

text \<open>A rolling mean over a series that may hold NaN or infinities: pandas takes an
  infinity as NaN, and a window with a NaN in it gives NaN.\<close>

fun the_fin :: "fval \<Rightarrow> real" where
  "the_fin (Fin x) = x"
| "the_fin a = 0"

fun is_fin :: "fval \<Rightarrow> bool" where
  "is_fin (Fin x) = True"
| "is_fin a = False"

definition rolling_mean_f :: "nat \<Rightarrow> fval list \<Rightarrow> nat \<Rightarrow> fval" where
  "rolling_mean_f w xs i =
     (if w = 0 \<or> i + 1 < w then NaN
      else if list_all is_fin (window w xs i)
           then Fin (sum_list (map the_fin (window w xs i)) / real w)
           else NaN)"

text \<open>\<open>series.diff()\<close>: the first difference is NaN.\<close>

fun diffs :: "real list \<Rightarrow> real list" where
  "diffs (x # y # xs) = (y - x) # diffs (y # xs)"
| "diffs xs = []"

definition diff :: "real list \<Rightarrow> fval list" where
  "diff xs = (case xs of [] \<Rightarrow> [] | x # rest \<Rightarrow> NaN # map Fin (diffs xs))"

text \<open>\<open>series.ewm(span=s, adjust=False).mean()\<close>; pandas raises ValueError for a span below
  one, which is the \<open>None\<close> here.\<close>

fun ewm_from :: "real \<Rightarrow> real \<Rightarrow> real list \<Rightarrow> real list" where
  "ewm_from alpha prev [] = []"
| "ewm_from alpha prev (x # xs) =
     (let y = (1 - alpha) * prev + alpha * x in y # ewm_from alpha y xs)"

definition ewm_mean :: "nat \<Rightarrow> real list \<Rightarrow> real list option" where
  "ewm_mean span_n xs =
     (if span_n < 1 then None
      else Some (case xs of [] \<Rightarrow> []
                 | x # rest \<Rightarrow> x # ewm_from (2 / (real span_n + 1)) x rest))"

subsection \<open>Moving-average crossover\<close>

record mas =
  short_ma :: fval
  long_ma :: fval
  prev_short_ma :: fval
  prev_long_ma :: fval

text \<open>In each \<open>_calculate\<close> function an \<open>iloc[-1]\<close> or \<open>iloc[-2]\<close> on a series of fewer than
  two rows raises IndexError, which the function catches and turns into \<open>None\<close>.\<close>

definition get_moving_averages :: "BithumbAPI \<Rightarrow> nat \<Rightarrow> nat \<Rightarrow> string \<Rightarrow> mas option" where
  "get_moving_averages api short_period long_period coin =
     (case get_ohlcv api coin of
        None \<Rightarrow> None
      | Some df \<Rightarrow>
          if length df < long_period then None
          else if length df < 2 then None
          else (let close = map c_close df; n = length df
                in Some \<lparr>short_ma = rolling_mean short_period close (n - 1),
                         long_ma = rolling_mean long_period close (n - 1),
                         prev_short_ma = rolling_mean short_period close (n - 2),
                         prev_long_ma = rolling_mean long_period close (n - 2)\<rparr>))"

subsection \<open>RSI\<close>

definition gains :: "real list \<Rightarrow> real list" where
  "gains close = map (\<lambda>d. case d of Fin x \<Rightarrow> if x > 0 then x else 0 | _ \<Rightarrow> 0) (diff close)"

definition losses :: "real list \<Rightarrow> real list" where
  "losses close = map (\<lambda>d. - (case d of Fin x \<Rightarrow> if x < 0 then x else 0 | _ \<Rightarrow> 0)) (diff close)"

definition avg_gains :: "nat \<Rightarrow> real list \<Rightarrow> fval" where
  "avg_gains period close = rolling_mean period (gains close) (length close - 1)"

definition avg_losses :: "nat \<Rightarrow> real list \<Rightarrow> fval" where
  "avg_losses period close = rolling_mean period (losses close) (length close - 1)"

definition calculate_rsi :: "BithumbAPI \<Rightarrow> nat \<Rightarrow> string \<Rightarrow> fval option" where
  "calculate_rsi api period coin =
     (case get_ohlcv api coin of
        None \<Rightarrow> None
      | Some df \<Rightarrow>
          if length df < period + 1 then None
          else (let close = map c_close df;
                    rs = fdiv (avg_gains period close) (avg_losses period close);
                    rsi = fsub (Fin 100) (fdiv (Fin 100) (fadd (Fin 1) rs))
                in Some rsi))"

subsection \<open>Bollinger bands\<close>

record bands =
  bb_current_price :: real
  bb_prev_price :: real
  upper_band :: fval
  middle_band :: fval
  lower_band :: fval
  prev_upper_band :: fval
  prev_middle_band :: fval
  prev_lower_band :: fval

definition calculate_bollinger_bands ::
  "BithumbAPI \<Rightarrow> nat \<Rightarrow> real \<Rightarrow> string \<Rightarrow> bands option" where
  "calculate_bollinger_bands api period std_dev coin =
     (case get_ohlcv api coin of
        None \<Rightarrow> None
      | Some df \<Rightarrow>
          if length df < period + 1 then None
          else if length df < 2 then None
          else (let close = map c_close df; n = length df;
                    middle = rolling_mean period close;
                    std = rolling_std period close;
                    upper = (\<lambda>i. fadd (middle i) (fmul (std i) (Fin std_dev)));
                    lower = (\<lambda>i. fsub (middle i) (fmul (std i) (Fin std_dev)))
                in Some \<lparr>bb_current_price = close ! (n - 1), bb_prev_price = close ! (n - 2),
                         upper_band = upper (n - 1), middle_band = middle (n - 1),
                         lower_band = lower (n - 1), prev_upper_band = upper (n - 2),
                         prev_middle_band = middle (n - 2),
                         prev_lower_band = lower (n - 2)\<rparr>))"

subsection \<open>MACD\<close>

record macd_values =
  macd :: real
  signal :: real
  histogram :: real
  prev_macd :: real
  prev_signal :: real

definition calculate_macd ::
  "BithumbAPI \<Rightarrow> nat \<Rightarrow> nat \<Rightarrow> nat \<Rightarrow> string \<Rightarrow> macd_values option" where
  "calculate_macd api fast_period slow_period signal_period coin =
     (case get_ohlcv api coin of
        None \<Rightarrow> None
      | Some df \<Rightarrow>
          if length df < slow_period + signal_period then None
          else (let close = map c_close df; n = length df
                in case ewm_mean fast_period close of
                     None \<Rightarrow> None
                   | Some fast_ema \<Rightarrow>
                       (case ewm_mean slow_period close of
                          None \<Rightarrow> None
                        | Some slow_ema \<Rightarrow>
                            (let macd_line = map2 (-) fast_ema slow_ema
                             in case ewm_mean signal_period macd_line of
                                  None \<Rightarrow> None
                                | Some signal_line \<Rightarrow>
                                    if n < 2 then None
                                    else Some \<lparr>macd = macd_line ! (n - 1),
                                           signal = signal_line ! (n - 1),
                                           histogram = macd_line ! (n - 1) - signal_line ! (n - 1),
                                           prev_macd = macd_line ! (n - 2),
                                           prev_signal = signal_line ! (n - 2)\<rparr>))))"

subsection \<open>Stochastic oscillator\<close>

record stoch =
  st_k :: fval
  st_d :: fval
  st_prev_k :: fval
  st_prev_d :: fval

definition k_percent :: "nat \<Rightarrow> candle list \<Rightarrow> nat \<Rightarrow> fval" where
  "k_percent k_period df i =
     (let lowest_low = rolling_min k_period (map c_low df) i;
          highest_high = rolling_max k_period (map c_high df) i
      in fdiv (fmul (Fin 100) (fsub (Fin (c_close (df ! i))) lowest_low))
              (fsub highest_high lowest_low))"

definition calculate_stochastic ::
  "BithumbAPI \<Rightarrow> nat \<Rightarrow> nat \<Rightarrow> string \<Rightarrow> stoch option" where
  "calculate_stochastic api k_period d_period coin =
     (case get_ohlcv api coin of
        None \<Rightarrow> None
      | Some df \<Rightarrow>
          if length df < k_period + d_period then None
          else if length df < 2 then None
          else (let n = length df;
                    ks = map (k_percent k_period df) [0..<n];
                    ds = rolling_mean_f d_period ks
                in Some \<lparr>st_k = ks ! (n - 1), st_d = ds (n - 1),
                         st_prev_k = ks ! (n - 2), st_prev_d = ds (n - 2)\<rparr>))"

subsection \<open>The strategy variants and their signals\<close>

datatype strategy =
    MovingAverageStrategy nat nat
  | RSIStrategy nat real real
  | BollingerBandStrategy nat real
  | MACDStrategy nat nat nat
  | StochasticStrategy nat nat real real
  | CompositeStrategy "strategy list" int

fun should_buy :: "BithumbAPI \<Rightarrow> strategy \<Rightarrow> string \<Rightarrow> bool" where
  "should_buy api (MovingAverageStrategy short_period long_period) coin =
     (case get_moving_averages api short_period long_period coin of
        None \<Rightarrow> False
      | Some m \<Rightarrow> fle (prev_short_ma m) (prev_long_ma m) \<and> fgt (short_ma m) (long_ma m))"
| "should_buy api (RSIStrategy period oversold overbought) coin =
     (case calculate_rsi api period coin of
        None \<Rightarrow> False
      | Some rsi \<Rightarrow> flt rsi (Fin oversold))"
| "should_buy api (BollingerBandStrategy period std_dev) coin =
     (case calculate_bollinger_bands api period std_dev coin of
        None \<Rightarrow> False
      | Some bb \<Rightarrow> flt (Fin (bb_prev_price bb)) (prev_lower_band bb)
                   \<and> fge (Fin (bb_current_price bb)) (lower_band bb))"
| "should_buy api (MACDStrategy fast_period slow_period signal_period) coin =
     (case calculate_macd api fast_period slow_period signal_period coin of
        None \<Rightarrow> False
      | Some m \<Rightarrow> prev_macd m \<le> prev_signal m \<and> macd m > signal m)"
| "should_buy api (StochasticStrategy k_period d_period oversold overbought) coin =
     (case calculate_stochastic api k_period d_period coin of
        None \<Rightarrow> False
      | Some s \<Rightarrow> flt (st_k s) (Fin oversold)
                  \<and> fle (st_prev_k s) (st_prev_d s) \<and> fgt (st_k s) (st_d s))"
| "should_buy api (CompositeStrategy strategies min_confirmations) coin =
     (int (length (filter (\<lambda>s. should_buy api s coin) strategies)) \<ge> min_confirmations)"

fun should_sell :: "BithumbAPI \<Rightarrow> strategy \<Rightarrow> string \<Rightarrow> bool" where
  "should_sell api (MovingAverageStrategy short_period long_period) coin =
     (case get_moving_averages api short_period long_period coin of
        None \<Rightarrow> False
      | Some m \<Rightarrow> fge (prev_short_ma m) (prev_long_ma m) \<and> flt (short_ma m) (long_ma m))"
| "should_sell api (RSIStrategy period oversold overbought) coin =
     (case calculate_rsi api period coin of
        None \<Rightarrow> False
      | Some rsi \<Rightarrow> fgt rsi (Fin overbought))"
| "should_sell api (BollingerBandStrategy period std_dev) coin =
     (case calculate_bollinger_bands api period std_dev coin of
        None \<Rightarrow> False
      | Some bb \<Rightarrow> fgt (Fin (bb_prev_price bb)) (prev_upper_band bb)
                   \<and> fle (Fin (bb_current_price bb)) (upper_band bb))"
| "should_sell api (MACDStrategy fast_period slow_period signal_period) coin =
     (case calculate_macd api fast_period slow_period signal_period coin of
        None \<Rightarrow> False
      | Some m \<Rightarrow> prev_macd m \<ge> prev_signal m \<and> macd m < signal m)"
| "should_sell api (StochasticStrategy k_period d_period oversold overbought) coin =
     (case calculate_stochastic api k_period d_period coin of
        None \<Rightarrow> False
      | Some s \<Rightarrow> fgt (st_k s) (Fin overbought)
                  \<and> fge (st_prev_k s) (st_prev_d s) \<and> flt (st_k s) (st_d s))"
| "should_sell api (CompositeStrategy strategies min_confirmations) coin =
     (int (length (filter (\<lambda>s. should_sell api s coin) strategies)) \<ge> min_confirmations)"

subsection \<open>Insufficient history\<close>

text \<open>
  A candle series is short for a variant when it is absent or has fewer rows than the
  lookback of the variant: \<open>long_period + 1\<close> for the moving-average crossover,
  \<open>period + 1\<close> for RSI and Bollinger, \<open>slow_period + signal_period\<close> for MACD and
  \<open>k_period + d_period\<close> for the stochastic oscillator; for a composite, when it is short for
  every sub-strategy. A strategy is confirming when every composite in it asks for at
  least one confirmation.
\<close>

definition shorter :: "candle list option \<Rightarrow> nat \<Rightarrow> bool" where
  "shorter df n = (case df of None \<Rightarrow> True | Some rows \<Rightarrow> length rows < n)"

fun short_history :: "candle list option \<Rightarrow> strategy \<Rightarrow> bool" where
  "short_history df (MovingAverageStrategy short_period long_period) = shorter df (long_period + 1)"
| "short_history df (RSIStrategy period oversold overbought) = shorter df (period + 1)"
| "short_history df (BollingerBandStrategy period std_dev) = shorter df (period + 1)"
| "short_history df (MACDStrategy fast_period slow_period signal_period) =
     shorter df (slow_period + signal_period)"
| "short_history df (StochasticStrategy k_period d_period oversold overbought) =
     shorter df (k_period + d_period)"
| "short_history df (CompositeStrategy strategies min_confirmations) =
     list_all (short_history df) strategies"

fun confirming :: "strategy \<Rightarrow> bool" where
  "confirming (CompositeStrategy strategies min_confirmations) =
     (1 \<le> min_confirmations \<and> list_all confirming strategies)"
| "confirming s = True"

definition flat_candle :: "real \<Rightarrow> candle" where
  "flat_candle p = \<lparr>c_open = p, c_high = p, c_low = p, c_close = p, c_volume = 1\<rparr>"

section \<open>Backtesting (app/services/backtesting.py)\<close>

text \<open>
  The replay loop of \<open>run_backtest\<close>. The metrics computed afterwards by
  \<open>calculate_metrics\<close> (win rate, drawdown, Sharpe ratio) are not modelled, and closing
  prices are taken to be non-zero.
\<close>

record bt_position =
  pos_price :: real
  pos_amount :: real
  pos_fee :: real

record bt_trade =
  bt_type :: OrderType
  bt_price :: real
  bt_amount :: real
  bt_total :: real
  bt_fee :: real
  bt_profit :: "real option"
  bt_profit_pct :: "real option"
  bt_buy_price :: "real option"

record bt_state =
  krw_balance :: real
  coin_balance :: real
  bt_open_position :: "bt_position option"
  bt_trades :: "bt_trade list"
  equity_values :: "real list"
  winning_trades :: nat
  losing_trades :: nat

text \<open>\<open>max(strategy.short_period if hasattr(strategy, 'short_period') else 0,
  strategy.period if hasattr(strategy, 'period') else 0) + 1\<close>\<close>

fun min_history :: "strategy \<Rightarrow> nat" where
  "min_history (MovingAverageStrategy short_period long_period) = max short_period 0 + 1"
| "min_history (RSIStrategy period oversold overbought) = max 0 period + 1"
| "min_history (BollingerBandStrategy period std_dev) = max 0 period + 1"
| "min_history s = max 0 0 + 1"

text \<open>
  The signals the loop body gets at candle \<open>i\<close> of the replayed frame \<open>df\<close>:
  \<open>strategy.should_buy(coin)\<close> and \<open>strategy.should_sell(coin)\<close>, which read the series
  from the exchange client again; neither \<open>df\<close> nor \<open>i\<close> is passed on.
\<close>

definition signals_at ::
  "BithumbAPI \<Rightarrow> strategy \<Rightarrow> string \<Rightarrow> candle list \<Rightarrow> nat \<Rightarrow> bool \<times> bool" where
  "signals_at api strategy coin df i = (should_buy api strategy coin, should_sell api strategy coin)"

definition bt_execute :: "bool \<times> bool \<Rightarrow> real \<Rightarrow> real \<Rightarrow> real \<Rightarrow> bt_state \<Rightarrow> bt_state" where
  "bt_execute sig trade_amount_pct fee_rate current_price st =
     (if fst sig \<and> bt_open_position st = None \<and> krw_balance st > 0 then
        (let trade_amount_krw = krw_balance st * (trade_amount_pct / 100);
             fee = trade_amount_krw * fee_rate;
             coin_amount = (trade_amount_krw - fee) / current_price
         in st\<lparr>coin_balance := coin_balance st + coin_amount,
               krw_balance := krw_balance st - trade_amount_krw,
               bt_open_position :=
                 Some \<lparr>pos_price = current_price, pos_amount = coin_amount, pos_fee = fee\<rparr>,
               bt_trades := bt_trades st @
                 [\<lparr>bt_type = BUY, bt_price = current_price, bt_amount = coin_amount,
                   bt_total = trade_amount_krw, bt_fee = fee, bt_profit = None,
                   bt_profit_pct = None, bt_buy_price = None\<rparr>]\<rparr>)
      else
        (case bt_open_position st of
           Some pos \<Rightarrow>
             if snd sig \<and> coin_balance st > 0 then
               (let trade_amount_coin = coin_balance st;
                    trade_amount_krw = trade_amount_coin * current_price;
                    fee = trade_amount_krw * fee_rate;
                    net_amount = trade_amount_krw - fee;
                    buy_price = pos_price pos;
                    profit = (current_price - buy_price) * trade_amount_coin - pos_fee pos - fee;
                    profit_pct = ((current_price - buy_price) / buy_price) * 100
                in st\<lparr>krw_balance := krw_balance st + net_amount,
                      coin_balance := 0,
                      winning_trades := (if profit > 0 then winning_trades st + 1
                                         else winning_trades st),
                      losing_trades := (if profit > 0 then losing_trades st
                                        else losing_trades st + 1),
                      bt_trades := bt_trades st @
                        [\<lparr>bt_type = SELL, bt_price = current_price, bt_amount = trade_amount_coin,
                          bt_total = trade_amount_krw, bt_fee = fee, bt_profit = Some profit,
                          bt_profit_pct = Some profit_pct, bt_buy_price = Some buy_price\<rparr>],
                      bt_open_position := None\<rparr>)
             else st
         | None \<Rightarrow> st))"

definition bt_step ::
  "BithumbAPI \<Rightarrow> strategy \<Rightarrow> string \<Rightarrow> real \<Rightarrow> real \<Rightarrow> candle list \<Rightarrow> nat \<Rightarrow> bt_state
   \<Rightarrow> bt_state" where
  "bt_step api strategy coin trade_amount_pct fee_rate df i st =
     (let current_price = c_close (df ! i);
          equity = krw_balance st + coin_balance st * current_price;
          st1 = st\<lparr>equity_values := equity_values st @ [equity]\<rparr>
      in if i < min_history strategy then st1
         else bt_execute (signals_at api strategy coin df i) trade_amount_pct fee_rate
                current_price st1)"

record BacktestResult =
  r_initial_balance :: real
  r_final_balance :: real
  r_total_return :: real
  r_total_return_pct :: fval
  r_total_trades :: nat
  r_winning_trades :: nat
  r_losing_trades :: nat
  r_trades :: "bt_trade list"
  r_equity_curve :: "real list"

definition empty_result :: "real \<Rightarrow> BacktestResult" where
  "empty_result initial_balance =
     \<lparr>r_initial_balance = initial_balance, r_final_balance = 0, r_total_return = 0,
      r_total_return_pct = Fin 0, r_total_trades = 0, r_winning_trades = 0, r_losing_trades = 0,
      r_trades = [], r_equity_curve = []\<rparr>"

text \<open>\<open>df.tail(days)\<close> of a non-empty frame is empty for \<open>days = 0\<close>, and \<open>df.index[0]\<close> then
  raises IndexError. The final balance is a numpy float, so with a zero initial balance the
  return percentage is an infinity or NaN and no exception.\<close>

definition run_backtest ::
  "BithumbAPI \<Rightarrow> strategy \<Rightarrow> string \<Rightarrow> real \<Rightarrow> real \<Rightarrow> nat \<Rightarrow> real
   \<Rightarrow> py_error + BacktestResult" where
  "run_backtest api strategy coin initial_balance trade_amount_pct days fee_rate =
     (case get_ohlcv api coin of
        None \<Rightarrow> Inr (empty_result initial_balance)
      | Some df0 \<Rightarrow>
          if length df0 = 0 then Inr (empty_result initial_balance)
          else
            (let df = drop (length df0 - days) df0
             in if df = [] then Inl IndexError
                else
                  (let st = fold (bt_step api strategy coin trade_amount_pct fee_rate df)
                              [0..<length df]
                              \<lparr>krw_balance = initial_balance, coin_balance = 0,
                               bt_open_position = None, bt_trades = [], equity_values = [],
                               winning_trades = 0, losing_trades = 0\<rparr>;
                       final_price = c_close (last df);
                       final_balance = krw_balance st + coin_balance st * final_price;
                       total_return = final_balance - initial_balance
                   in Inr \<lparr>r_initial_balance = initial_balance,
                          r_final_balance = final_balance,
                          r_total_return = total_return,
                          r_total_return_pct =
                            fmul (fdiv (Fin total_return) (Fin initial_balance)) (Fin 100),
                          r_total_trades = length (filter (\<lambda>t. bt_type t = SELL) (bt_trades st)),
                          r_winning_trades = winning_trades st,
                          r_losing_trades = losing_trades st,
                          r_trades = bt_trades st,
                          r_equity_curve = equity_values st\<rparr>)))"

section \<open>Scheduler (app/services/scheduler.py)\<close>

record User =
  u_id :: nat
  username :: string
  bithumb_api_key :: "string option"
  bithumb_api_secret :: "string option"

text \<open>
  The \<open>parameters\<close> column holds JSON text. It is modelled after parsing: absent or empty
  text, text that \<open>json.loads\<close> rejects, or an object. Of an object the numeric entries are
  kept, and the entries of the list \<open>strategy_types\<close>: an object with an optional \<open>type\<close>
  and its \<open>params\<close>, or a bare string (on which \<open>.get\<close> raises AttributeError). Periods and
  \<open>min_confirmations\<close> are whole numbers in the bag.
\<close>

datatype sub_entry = SubObject "string option" "(string \<times> real) list" | SubString string

record params =
  numbers :: "(string \<times> real) list"
  strategy_types :: "sub_entry list"

datatype parameters = NoParameters | InvalidJSON | Parameters params

record TradingStrategyModel =
  s_id :: nat
  s_user_id :: nat
  s_name :: string
  s_coin :: string
  s_enabled :: bool
  s_strategy_type :: string
  s_parameters :: parameters
  s_max_buy_amount :: "real option"

text \<open>The message of a log row is an f-string; it is kept as its template with the values
  that are formatted into it.\<close>

datatype log_message =
    BuySkippedLimit real real
  | BuyOrder bool real string
  | SellOrder bool real string
  | RiskSellOrder string real string
  | NoSignal

record StrategyExecutionLog =
  l_strategy_id :: nat
  l_strategy_name :: string
  l_coin :: string
  l_signal :: "string option"
  l_executed :: bool
  l_order_id :: "nat option"
  l_message :: "log_message option"
  l_error :: "string option"

record database =
  db_store :: store
  logs :: "StrategyExecutionLog list"
  users :: "User list"
  strategy_rows :: "TradingStrategyModel list"

definition log_execution ::
  "database \<Rightarrow> TradingStrategyModel \<Rightarrow> string option \<Rightarrow> bool \<Rightarrow> nat option \<Rightarrow>
   log_message option \<Rightarrow> string option \<Rightarrow> database" where
  "log_execution db strategy_model sig executed order_id message error =
     db\<lparr>logs := logs db @
        [\<lparr>l_strategy_id = s_id strategy_model, l_strategy_name = s_name strategy_model,
          l_coin = s_coin strategy_model, l_signal = sig, l_executed = executed,
          l_order_id = order_id, l_message = message, l_error = error\<rparr>]\<rparr>"

text \<open>\<open>str(e)\<close> of the exceptions of the model.\<close>

fun str_of_error :: "py_error \<Rightarrow> string" where
  "str_of_error ZeroDivisionError = ''float division by zero''"
| "str_of_error AttributeError =
     [CHR 0x27] @ ''str'' @ [CHR 0x27] @ '' object has no attribute '' @ [CHR 0x27] @ ''get''
     @ [CHR 0x27]"
| "str_of_error IndexError = ''index 0 is out of bounds for axis 0 with size 0''"

definition find_user :: "database \<Rightarrow> TradingStrategyModel \<Rightarrow> User option" where
  "find_user db strategy_model = find (\<lambda>u. u_id u = s_user_id strategy_model) (users db)"

definition truthy_string :: "string option \<Rightarrow> bool" where
  "truthy_string s = (case s of None \<Rightarrow> False | Some t \<Rightarrow> t \<noteq> [])"

definition has_credentials :: "User \<Rightarrow> bool" where
  "has_credentials user =
     (truthy_string (bithumb_api_key user) \<and> truthy_string (bithumb_api_secret user))"

definition user_api :: "(string \<Rightarrow> string \<Rightarrow> BithumbAPI) \<Rightarrow> User \<Rightarrow> BithumbAPI" where
  "user_api mk_api user =
     mk_api (case bithumb_api_key user of None \<Rightarrow> [] | Some k \<Rightarrow> k)
            (case bithumb_api_secret user of None \<Rightarrow> [] | Some k \<Rightarrow> k)"

definition empty_params :: params where
  "empty_params = \<lparr>numbers = [], strategy_types = []\<rparr>"

definition get_num :: "(string \<times> real) list \<Rightarrow> string \<Rightarrow> real \<Rightarrow> real" where
  "get_num bag name dflt = (case map_of bag name of None \<Rightarrow> dflt | Some v \<Rightarrow> v)"

definition get_nat :: "(string \<times> real) list \<Rightarrow> string \<Rightarrow> nat \<Rightarrow> nat" where
  "get_nat bag name dflt = (case map_of bag name of None \<Rightarrow> dflt | Some v \<Rightarrow> nat \<lfloor>v\<rfloor>)"

text \<open>\<open>params = {}\<close>, replaced by the parsed object when the column holds one.\<close>

definition params_of :: "TradingStrategyModel \<Rightarrow> params" where
  "params_of strategy_model =
     (case s_parameters strategy_model of Parameters p \<Rightarrow> p | _ \<Rightarrow> empty_params)"

text \<open>The five indicator variants, built from a type name and a bag with the defaults of
  the scheduler; used for a strategy row and for an entry of a composite.\<close>

definition indicator_strategy :: "string \<Rightarrow> (string \<times> real) list \<Rightarrow> strategy option" where
  "indicator_strategy ty bag =
     (if ty = ''moving_average'' then
        Some (MovingAverageStrategy (get_nat bag ''short_period'' 5) (get_nat bag ''long_period'' 20))
      else if ty = ''bollinger'' then
        Some (BollingerBandStrategy (get_nat bag ''period'' 20) (get_num bag ''std_dev'' 2.0))
      else if ty = ''rsi'' then
        Some (RSIStrategy (get_nat bag ''period'' 14) (get_num bag ''oversold'' 30)
                (get_num bag ''overbought'' 70))
      else if ty = ''macd'' then
        Some (MACDStrategy (get_nat bag ''fast_period'' 12) (get_nat bag ''slow_period'' 26)
                (get_nat bag ''signal_period'' 9))
      else if ty = ''stochastic'' then
        Some (StochasticStrategy (get_nat bag ''k_period'' 14) (get_nat bag ''d_period'' 3)
                (get_num bag ''oversold'' 20) (get_num bag ''overbought'' 80))
      else None)"

text \<open>The loop over \<open>strategy_types\<close>: an entry of an unknown type adds nothing.\<close>

fun sub_strategies :: "sub_entry list \<Rightarrow> py_error + strategy list" where
  "sub_strategies [] = Inr []"
| "sub_strategies (SubString s # rest) = Inl AttributeError"
| "sub_strategies (SubObject ty bag # rest) =
     (case sub_strategies rest of
        Inl e \<Rightarrow> Inl e
      | Inr subs \<Rightarrow>
          (case (case ty of None \<Rightarrow> None | Some t \<Rightarrow> indicator_strategy t bag) of
             None \<Rightarrow> Inr subs
           | Some s \<Rightarrow> Inr (s # subs)))"

text \<open>The strategy instance for a row: \<open>None\<close> for an unknown strategy type.\<close>

definition make_strategy :: "string \<Rightarrow> params \<Rightarrow> (py_error + strategy) option" where
  "make_strategy ty ps =
     (case indicator_strategy ty (numbers ps) of
        Some s \<Rightarrow> Some (Inr s)
      | None \<Rightarrow>
          if ty = ''composite'' then
            (case sub_strategies (strategy_types ps) of
               Inl e \<Rightarrow> Some (Inl e)
             | Inr subs \<Rightarrow>
                 Some (Inr (CompositeStrategy subs
                        (case map_of (numbers ps) ''min_confirmations'' of
                           None \<Rightarrow> 2 | Some v \<Rightarrow> \<lfloor>v\<rfloor>))))
          else None)"

text \<open>\<open>sum(Order.total)\<close> over the completed buy orders of the strategy, \<open>or 0.0\<close>.\<close>

definition total_invested :: "database \<Rightarrow> TradingStrategyModel \<Rightarrow> real" where
  "total_invested db strategy_model =
     sum_list (map o_total
       (filter (\<lambda>order. o_strategy_id order = Some (s_id strategy_model)
                  \<and> o_order_type order = BUY \<and> o_status order = COMPLETED)
          (orders (db_store db))))"

text \<open>
  \<open>_execute_strategy\<close>. The fetch of price and balance at its start and the Bollinger
  branch's second fetch of candles only feed log lines and are left out. The result is
  \<open>Inl\<close> when an exception leaves the function; none of them comes after a change of the
  store.
\<close>

definition execute_strategy ::
  "Settings \<Rightarrow> (string \<Rightarrow> string \<Rightarrow> BithumbAPI) \<Rightarrow> database \<Rightarrow> TradingStrategyModel \<Rightarrow>
   py_error + database" where
  "execute_strategy settings mk_api db strategy_model =
     (case find_user db strategy_model of
        None \<Rightarrow> Inr db
      | Some user \<Rightarrow>
          if \<not> has_credentials user then
            Inr (log_execution db strategy_model None False None None
                   (Some (''User '' @ username user @ '' has no API credentials configured'')))
          else if s_parameters strategy_model = InvalidJSON then Inr db
          else
            (let api = user_api mk_api user;
                 ps = params_of strategy_model;
                 coin = s_coin strategy_model
             in case make_strategy (s_strategy_type strategy_model) ps of
                  None \<Rightarrow> Inr db
                | Some (Inl e) \<Rightarrow> Inl e
                | Some (Inr strategy) \<Rightarrow>
                    if should_buy api strategy coin then
                      (let trade_amount = get_num (numbers ps) ''trade_amount'' 0.001;
                           trade_amount_krw = get_num (numbers ps) ''trade_amount_krw'' 10000;
                           limit = (case s_max_buy_amount strategy_model of
                                      None \<Rightarrow> 0 | Some m \<Rightarrow> m)
                       in if limit \<noteq> 0 \<and> limit > 0
                             \<and> total_invested db strategy_model + trade_amount_krw > limit
                          then
                            Inr (log_execution db strategy_model (Some ''buy'') False None
                                   (Some (BuySkippedLimit (total_invested db strategy_model) limit))
                                   None)
                          else
                            (case execute_buy_order settings api (db_store db) coin trade_amount
                                    None (Some (s_id strategy_model)) of
                               Inr (order, store') \<Rightarrow>
                                 Inr (log_execution (db\<lparr>db_store := store'\<rparr>) strategy_model
                                        (Some ''buy'') (o_status order = COMPLETED)
                                        (Some (o_id order))
                                        (Some (BuyOrder (o_status order = COMPLETED)
                                                 (o_amount order) coin))
                                        None)
                             | Inl e \<Rightarrow>
                                 Inr (log_execution db strategy_model (Some ''buy'') False None
                                        None (Some (str_of_error e)))))
                    else if should_sell api strategy coin then
                      (let trade_amount = get_num (numbers ps) ''trade_amount'' 0.001
                       in case execute_sell_order settings api (db_store db) coin trade_amount
                                 None (Some (s_id strategy_model)) of
                            Inr (order, store') \<Rightarrow>
                              Inr (log_execution (db\<lparr>db_store := store'\<rparr>) strategy_model
                                     (Some ''sell'') (o_status order = COMPLETED)
                                     (Some (o_id order))
                                     (Some (SellOrder (o_status order = COMPLETED)
                                              (o_amount order) coin))
                                     None)
                          | Inl e \<Rightarrow>
                              Inr (log_execution db strategy_model (Some ''sell'') False None
                                     None (Some (str_of_error e))))
                    else
                      Inr (log_execution db strategy_model None False None (Some NoSignal) None)))"

text \<open>\<open>_execute_profit_target_sell\<close>\<close>

definition execute_profit_target_sell ::
  "Settings \<Rightarrow> database \<Rightarrow> TradingStrategyModel \<Rightarrow> BithumbAPI \<Rightarrow> string \<Rightarrow> real \<Rightarrow> string
   \<Rightarrow> database" where
  "execute_profit_target_sell settings db strategy_model api coin amount reason =
     (case execute_sell_order settings api (db_store db) coin amount None
             (Some (s_id strategy_model)) of
        Inr (order, store') \<Rightarrow>
          log_execution (db\<lparr>db_store := store'\<rparr>) strategy_model (Some ''sell'')
            (o_status order = COMPLETED) (Some (o_id order))
            (Some (RiskSellOrder
                     (if reason = ''profit_target'' then ''Profit target'' else ''Stop loss'')
                     (o_amount order) coin))
            None
      | Inl e \<Rightarrow>
          log_execution db strategy_model (Some ''sell'') False None None
            (Some (str_of_error e)))"

text \<open>
  The decision of the risk pass for one strategy row: the amount to sell and the reason,
  or \<open>None\<close> when the pass goes on to the next row. A threshold is tested for truth, so an
  absent or zero threshold is not configured.
\<close>

definition risk_exit ::
  "(string \<Rightarrow> string \<Rightarrow> BithumbAPI) \<Rightarrow> database \<Rightarrow> TradingStrategyModel \<Rightarrow>
   (real \<times> string) option" where
  "risk_exit mk_api db strategy_model =
     (case find_user db strategy_model of
        None \<Rightarrow> None
      | Some user \<Rightarrow>
          if \<not> has_credentials user then None
          else if s_parameters strategy_model = InvalidJSON then None
          else
            (let api = user_api mk_api user;
                 ps = params_of strategy_model;
                 profit_target = get_num (numbers ps) ''profit_target'' 0;
                 stop_loss = get_num (numbers ps) ''stop_loss'' 0
             in if profit_target = 0 \<and> stop_loss = 0 then None
                else
                  (let coin = s_coin strategy_model;
                       balance_data = get_balance api coin;
                       api_avg = (case bd_avg_buy_price balance_data of None \<Rightarrow> 0 | Some a \<Rightarrow> a);
                       basis =
                         (if bd_total balance_data \<le> 0 \<or> api_avg = 0 then
                            (case balances (db_store db) coin of
                               None \<Rightarrow> None
                             | Some balance \<Rightarrow>
                                 if b_total balance \<le> 0 then None
                                 else (case b_avg_buy_price balance of
                                         None \<Rightarrow> None
                                       | Some a \<Rightarrow> if a = 0 then None else Some a))
                          else Some api_avg)
                   in case basis of
                        None \<Rightarrow> None
                      | Some buy_price \<Rightarrow>
                          (case get_current_price api coin of
                             None \<Rightarrow> None
                           | Some current_price \<Rightarrow>
                               if current_price = 0 then None
                               else
                                 (let profit_percentage =
                                        ((current_price - buy_price) / buy_price) * 100
                                  in if profit_target \<noteq> 0 \<and> profit_percentage \<ge> profit_target
                                     then Some (bd_available balance_data, ''profit_target'')
                                     else if stop_loss \<noteq> 0 \<and> stop_loss > 0
                                             \<and> profit_percentage \<le> - stop_loss
                                     then Some (bd_available balance_data, ''stop_loss'')
                                     else None)))))"

definition check_profit_target_and_stop_loss ::
  "Settings \<Rightarrow> (string \<Rightarrow> string \<Rightarrow> BithumbAPI) \<Rightarrow> database \<Rightarrow> TradingStrategyModel \<Rightarrow>
   database" where
  "check_profit_target_and_stop_loss settings mk_api db strategy_model =
     (case risk_exit mk_api db strategy_model of
        None \<Rightarrow> db
      | Some (amount, reason) \<Rightarrow>
          (case find_user db strategy_model of
             None \<Rightarrow> db
           | Some user \<Rightarrow>
               execute_profit_target_sell settings db strategy_model (user_api mk_api user)
                 (s_coin strategy_model) amount reason))"

text \<open>\<open>_check_profit_targets_and_stop_losses\<close>: the rows are queried once, before the loop.\<close>

definition check_profit_targets_and_stop_losses ::
  "Settings \<Rightarrow> (string \<Rightarrow> string \<Rightarrow> BithumbAPI) \<Rightarrow> database \<Rightarrow> database" where
  "check_profit_targets_and_stop_losses settings mk_api db =
     fold (\<lambda>strategy_model d. check_profit_target_and_stop_loss settings mk_api d strategy_model)
       (filter s_enabled (strategy_rows db)) db"

text \<open>The body of the loop of \<open>run_strategy_checks\<close>, with its exception handler.\<close>

definition check_strategy ::
  "Settings \<Rightarrow> (string \<Rightarrow> string \<Rightarrow> BithumbAPI) \<Rightarrow> database \<Rightarrow> TradingStrategyModel \<Rightarrow>
   database" where
  "check_strategy settings mk_api db strategy_model =
     (case execute_strategy settings mk_api db strategy_model of
        Inr db' \<Rightarrow> db'
      | Inl e \<Rightarrow> log_execution db strategy_model None False None None (Some (str_of_error e)))"

definition run_strategy_checks ::
  "Settings \<Rightarrow> (string \<Rightarrow> string \<Rightarrow> BithumbAPI) \<Rightarrow> database \<Rightarrow> database" where
  "run_strategy_checks settings mk_api db =
     (let db1 = check_profit_targets_and_stop_losses settings mk_api db;
          strategies = filter s_enabled (strategy_rows db1)
      in if strategies = [] then db1
         else fold (\<lambda>strategy_model d. check_strategy settings mk_api d strategy_model)
                strategies db1)"

text \<open>
  The strategy rows for which the signal pass of a cycle reaches a branch that writes a
  log row: the owner exists and either has no credentials (logged as such) or the
  parameters parse and the strategy type is known.
\<close>

definition signal_pass_entry :: "User list \<Rightarrow> TradingStrategyModel \<Rightarrow> bool" where
  "signal_pass_entry us strategy_model =
     (case find (\<lambda>u. u_id u = s_user_id strategy_model) us of
        None \<Rightarrow> False
      | Some user \<Rightarrow>
          if has_credentials user
          then s_parameters strategy_model \<noteq> InvalidJSON
               \<and> make_strategy (s_strategy_type strategy_model) (params_of strategy_model) \<noteq> None
          else True)"

section \<open>Fixed inputs used in the scheduler examples\<close>

definition demo_user :: User where
  "demo_user = \<lparr>u_id = 1, username = ''trader'', bithumb_api_key = Some ''key'',
                 bithumb_api_secret = Some ''secret''\<rparr>"

definition demo_row :: "string \<Rightarrow> parameters \<Rightarrow> real option \<Rightarrow> TradingStrategyModel" where
  "demo_row ty ps limit =
     \<lparr>s_id = 1, s_user_id = 1, s_name = ''demo'', s_coin = ''BTC'', s_enabled = True,
      s_strategy_type = ty, s_parameters = ps, s_max_buy_amount = limit\<rparr>"

definition demo_db :: "store \<Rightarrow> TradingStrategyModel list \<Rightarrow> database" where
  "demo_db st rows = \<lparr>db_store = st, logs = [], users = [demo_user], strategy_rows = rows\<rparr>"

definition mk_fixed_api ::
  "real option \<Rightarrow> balance_data \<Rightarrow> candle list option \<Rightarrow> response option \<Rightarrow> string \<Rightarrow> string
   \<Rightarrow> BithumbAPI" where
  "mk_fixed_api price bal df resp key secret = fixed_api price bal df resp"

definition numeric_params :: "(string \<times> real) list \<Rightarrow> parameters" where
  "numeric_params bag = Parameters \<lparr>numbers = bag, strategy_types = []\<rparr>"

definition holding :: "real \<Rightarrow> real \<Rightarrow> balance_data" where
  "holding amount avg =
     \<lparr>bd_total = amount, bd_available = amount, bd_in_use = 0, bd_avg_buy_price = Some avg\<rparr>"

definition invested_store :: "real \<Rightarrow> store" where
  "invested_store spent =
     \<lparr>orders = [\<lparr>o_id = 1, o_order_type = BUY, o_coin = ''BTC'', o_currency = ''KRW'',
                   o_amount = spent / 10, o_price = 10, o_total = spent, o_status = COMPLETED,
                   o_order_id = Some ''C0101000000000000001'', o_strategy_id = Some 1,
                   o_error_message = None\<rparr>],
      trades = [], balances = Map.empty\<rparr>"

section \<open>Properties of the trading engine\<close>

lemma execute_buy_order_no_price:
  "resolve_price api coin price = None \<Longrightarrow>
   execute_buy_order settings api db coin a price sid =
     Inr (add_order db (new_order BUY coin (default_currency settings) a 0 0 FAILED None sid
            (Some ''Failed to get current price'')))"
  by (simp add: execute_buy_order_def)

lemma execute_buy_order_disabled:
  "resolve_price api coin price = Some p \<Longrightarrow> p \<noteq> 0 \<Longrightarrow> \<not> trading_enabled settings \<Longrightarrow>
   execute_buy_order settings api db coin a price sid =
     Inr (add_order db (new_order BUY coin (default_currency settings) (adjusted_amount a p) p
            (adjusted_amount a p * p) PENDING None sid (Some ''Trading is disabled'')))"
  by (simp add: execute_buy_order_def Let_def)


lemma execute_buy_order_completed:
  "resolve_price api coin price = Some p \<Longrightarrow> p \<noteq> 0 \<Longrightarrow> trading_enabled settings \<Longrightarrow>
   is_success (buy_limit_order api coin p (adjusted_amount a p)) \<Longrightarrow>
   add_order db (new_order BUY coin (default_currency settings) (adjusted_amount a p) p
      (adjusted_amount a p * p) COMPLETED
      (result_order_id (buy_limit_order api coin p (adjusted_amount a p))) sid None) = (order, db1) \<Longrightarrow>
   execute_buy_order settings api db coin a price sid =
     Inr (order, update_balance (create_trade_record db1 order) coin (adjusted_amount a p) p)"
  by (simp add: execute_buy_order_def Let_def)

lemma execute_sell_order_no_price:
  "resolve_price api coin price = None \<Longrightarrow>
   execute_sell_order settings api db coin a price sid =
     Inr (add_order db (new_order SELL coin (default_currency settings) a 0 0 FAILED None sid
            (Some ''Failed to get current price'')))"
  by (simp add: execute_sell_order_def)

lemma execute_sell_order_disabled:
  "resolve_price api coin price = Some p \<Longrightarrow> p \<noteq> 0 \<Longrightarrow> \<not> trading_enabled settings \<Longrightarrow>
   execute_sell_order settings api db coin a price sid =
     Inr (add_order db (new_order SELL coin (default_currency settings) (adjusted_amount a p) p
            (adjusted_amount a p * p) PENDING None sid (Some ''Trading is disabled'')))"
  by (simp add: execute_sell_order_def Let_def)


lemma execute_sell_order_completed:
  "resolve_price api coin price = Some p \<Longrightarrow> p \<noteq> 0 \<Longrightarrow> trading_enabled settings \<Longrightarrow>
   is_success (sell_limit_order api coin p (adjusted_amount a p)) \<Longrightarrow>
   add_order db (new_order SELL coin (default_currency settings) (adjusted_amount a p) p
      (adjusted_amount a p * p) COMPLETED
      (result_order_id (sell_limit_order api coin p (adjusted_amount a p))) sid None) = (order, db1) \<Longrightarrow>
   execute_sell_order settings api db coin a price sid =
     Inr (order, update_balance (create_trade_record db1 order) coin (- adjusted_amount a p) p)"
  by (simp add: execute_sell_order_def Let_def)

lemma execute_buy_order_zero_price:
  "resolve_price api coin price = Some 0 \<Longrightarrow>
   execute_buy_order settings api db coin a price sid = Inl ZeroDivisionError"
  by (simp add: execute_buy_order_def MIN_ORDER_AMOUNT_KRW_def)

lemma execute_sell_order_zero_price:
  "resolve_price api coin price = Some 0 \<Longrightarrow>
   execute_sell_order settings api db coin a price sid = Inl ZeroDivisionError"
  by (simp add: execute_sell_order_def MIN_ORDER_AMOUNT_KRW_def)

lemma add_order_orders: "add_order db order = (order', db') \<Longrightarrow>
   orders db' = orders db @ [order'] \<and> trades db' = trades db \<and> balances db' = balances db
   \<and> order' = order\<lparr>o_id := Suc (length (orders db))\<rparr>"
  by (auto simp: add_order_def Let_def)

lemma create_trade_record_fields:
  "orders (create_trade_record db order) = orders db"
  "balances (create_trade_record db order) = balances db"
  "length (trades (create_trade_record db order)) = Suc (length (trades db))"
  by (simp_all add: create_trade_record_def Let_def)

lemma update_balance_fields:
  "orders (update_balance db coin a p) = orders db"
  "trades (update_balance db coin a p) = trades db"
  by (simp_all add: update_balance_def Let_def)

lemma adjusted_amount_ge: "0 < p \<Longrightarrow> a \<le> adjusted_amount a p"
proof -
  assume p: "0 < p"
  show ?thesis
  proof (cases "a * p < MIN_ORDER_AMOUNT_KRW")
    case True
    then have "a * p < 5500 * 1.1" by (simp add: MIN_ORDER_AMOUNT_KRW_def)
    then have "a < (5500 * 1.1) / p" using p by (simp add: pos_less_divide_eq)
    then show ?thesis using True by (simp add: adjusted_amount_def MIN_ORDER_AMOUNT_KRW_def)
  next
    case False
    then show ?thesis by (simp add: adjusted_amount_def)
  qed
qed

lemma adjusted_amount_notional:
  "p \<noteq> 0 \<Longrightarrow> a * p < MIN_ORDER_AMOUNT_KRW \<Longrightarrow>
   adjusted_amount a p = (5500 * 1.1) / p \<and> adjusted_amount a p * p = 5500 * 1.1"
  by (simp add: adjusted_amount_def MIN_ORDER_AMOUNT_KRW_def)

lemma adjusted_amount_pos: "0 < p \<Longrightarrow> 0 < adjusted_amount a p"
proof -
  assume p: "0 < p"
  show ?thesis
  proof (cases "a * p < MIN_ORDER_AMOUNT_KRW")
    case True
    then show ?thesis using p by (simp add: adjusted_amount_def MIN_ORDER_AMOUNT_KRW_def)
  next
    case False
    then have "0 < a * p" by (simp add: MIN_ORDER_AMOUNT_KRW_def)
    then have "0 < a" using p by (simp add: zero_less_mult_iff)
    then show ?thesis using False by (simp add: adjusted_amount_def)
  qed
qed

lemma execute_buy_order_shape:
  assumes "resolve_price api coin price = Some p" and "p \<noteq> 0"
  shows "\<exists>order db'. execute_buy_order settings api db coin a price sid = Inr (order, db')
           \<and> orders db' = orders db @ [order]
           \<and> o_order_type order = BUY \<and> o_price order = p
           \<and> o_amount order = adjusted_amount a p
           \<and> o_total order = adjusted_amount a p * p
           \<and> o_status order =
               (if trading_enabled settings
                then (if is_success (buy_limit_order api coin p (adjusted_amount a p))
                      then COMPLETED else FAILED)
                else PENDING)"
  using assms
  by (auto simp: execute_buy_order_def Let_def add_order_def new_order_def
        create_trade_record_def update_balance_def)

lemma execute_sell_order_shape:
  assumes "resolve_price api coin price = Some p" and "p \<noteq> 0"
  shows "\<exists>order db'. execute_sell_order settings api db coin a price sid = Inr (order, db')
           \<and> orders db' = orders db @ [order]
           \<and> o_order_type order = SELL \<and> o_price order = p
           \<and> o_amount order = adjusted_amount a p
           \<and> o_total order = adjusted_amount a p * p
           \<and> o_status order =
               (if trading_enabled settings
                then (if is_success (sell_limit_order api coin p (adjusted_amount a p))
                      then COMPLETED else FAILED)
                else PENDING)"
  using assms
  by (auto simp: execute_sell_order_def Let_def add_order_def new_order_def
        create_trade_record_def update_balance_def)



text \<open>
  C3. For a buy or a sell whose price resolves to \<open>p > 0\<close>, exactly one order row is
  persisted; its amount is never below the requested amount, and when the requested
  notional \<open>a * p\<close> is below the minimum of 5500 KRW the amount is \<open>(5500 * 1.1) / p\<close>
  and the persisted notional is at least \<open>5500 * 1.1\<close>.
\<close>

theorem min_order_amount_scaled:
  assumes "resolve_price api coin price = Some p" and "0 < p"
  shows "(\<exists>order db'. execute_buy_order settings api db coin a price sid = Inr (order, db')
            \<and> orders db' = orders db @ [order] \<and> a \<le> o_amount order
            \<and> (a * p < MIN_ORDER_AMOUNT_KRW \<longrightarrow>
                 o_amount order = (5500 * 1.1) / p \<and> 5500 * 1.1 \<le> o_total order))
       \<and> (\<exists>order db'. execute_sell_order settings api db coin a price sid = Inr (order, db')
            \<and> orders db' = orders db @ [order] \<and> a \<le> o_amount order
            \<and> (a * p < MIN_ORDER_AMOUNT_KRW \<longrightarrow>
                 o_amount order = (5500 * 1.1) / p \<and> 5500 * 1.1 \<le> o_total order))"
proof -
  have p0: "p \<noteq> 0" using assms(2) by simp
  have ge: "a \<le> adjusted_amount a p" using assms(2) by (rule adjusted_amount_ge)
  have sc: "a * p < MIN_ORDER_AMOUNT_KRW \<longrightarrow>
              adjusted_amount a p = (5500 * 1.1) / p \<and> 5500 * 1.1 \<le> adjusted_amount a p * p"
  proof (intro impI)
    assume lt: "a * p < MIN_ORDER_AMOUNT_KRW"
    from adjusted_amount_notional [OF p0 lt] p0
    show "adjusted_amount a p = (5500 * 1.1) / p \<and> 5500 * 1.1 \<le> adjusted_amount a p * p"
      by simp
  qed
  from execute_buy_order_shape [OF assms(1) p0, of settings db a sid]
  obtain order db' where b: "execute_buy_order settings api db coin a price sid = Inr (order, db')"
     "orders db' = orders db @ [order]" "o_amount order = adjusted_amount a p"
     "o_total order = adjusted_amount a p * p" by blast
  from execute_sell_order_shape [OF assms(1) p0, of settings db a sid]
  obtain order2 db2 where s: "execute_sell_order settings api db coin a price sid = Inr (order2, db2)"
     "orders db2 = orders db @ [order2]" "o_amount order2 = adjusted_amount a p"
     "o_total order2 = adjusted_amount a p * p" by blast
  show ?thesis using b s ge sc p0 by simp
qed

theorem min_order_amount_scaled_witness:
  "resolve_price (fixed_api (Some 100) no_holdings None None) ''BTC'' None = Some 100
   \<and> (0::real) < 100 \<and> (1::real) * 100 < MIN_ORDER_AMOUNT_KRW
   \<and> (\<exists>order db'. execute_buy_order default_settings (fixed_api (Some 100) no_holdings None None)
          empty_store ''BTC'' 1 None None = Inr (order, db')
        \<and> orders db' = [order] \<and> o_amount order = 60.5 \<and> 6050 \<le> o_total order)"
proof -
  have r: "resolve_price (fixed_api (Some 100) no_holdings None None) ''BTC'' None = Some 100"
    by (simp add: resolve_price_def fixed_api_def)
  have lt: "(1::real) * 100 < MIN_ORDER_AMOUNT_KRW" by (simp add: MIN_ORDER_AMOUNT_KRW_def)
  from min_order_amount_scaled [OF r, of default_settings empty_store 1 None] lt
  obtain order db' where
    "execute_buy_order default_settings (fixed_api (Some 100) no_holdings None None)
       empty_store ''BTC'' 1 None None = Inr (order, db')"
    "orders db' = orders empty_store @ [order]" "o_amount order = 60.5" "6050 \<le> o_total order"
    by auto
  then show ?thesis using r lt by (simp add: empty_store_def)
qed






lemma balance_or_new_update:
  "balance_or_new (update_balance db coin amount price) coin =
     (if amount > 0 then
        (balance_or_new db coin)\<lparr>b_total := b_total (balance_or_new db coin) + amount,
           b_available := b_total (balance_or_new db coin) + amount,
           b_avg_buy_price :=
             Some (if b_total (balance_or_new db coin) + amount > 0
                   then (b_total (balance_or_new db coin)
                           * (case b_avg_buy_price (balance_or_new db coin) of None \<Rightarrow> 0 | Some v \<Rightarrow> v)
                         + amount * price) / (b_total (balance_or_new db coin) + amount)
                   else price)\<rparr>
      else (balance_or_new db coin)\<lparr>b_total := b_total (balance_or_new db coin) + amount,
              b_available := b_total (balance_or_new db coin) + amount\<rparr>)"
  by (simp add: update_balance_def balance_or_new_def Let_def)

lemma update_balance_total:
  "b_total (balance_or_new (update_balance db coin amount price) coin)
     = b_total (balance_or_new db coin) + amount"
  by (simp add: balance_or_new_update)

lemma update_balances_nonneg:
  "0 \<le> b_total (balance_or_new db coin) \<Longrightarrow>
   within_holdings (b_total (balance_or_new db coin)) ups \<Longrightarrow>
   0 \<le> b_total (balance_or_new (update_balances db coin ups) coin)"
proof (induction ups arbitrary: db)
  case Nil
  then show ?case by simp
next
  case (Cons u ups)
  obtain amount price where u: "u = (amount, price)" by (cases u)
  from Cons.prems u have a: "0 \<le> b_total (balance_or_new db coin) + amount"
    and w: "within_holdings (b_total (balance_or_new db coin) + amount) ups" by simp_all
  have t: "b_total (balance_or_new (update_balance db coin amount price) coin)
             = b_total (balance_or_new db coin) + amount" by (rule update_balance_total)
  from Cons.IH [of "update_balance db coin amount price"] a w t u
  show ?case by simp
qed

text \<open>
  C7, as stated, fails: a completed sell of 2 coins from a recorded total of 1 leaves the
  total at -1.
\<close>

theorem total_negative_counterexample:
  "b_total (balance_or_new (snd (projr (execute_sell_order live_settings
      (fixed_api (Some 10000) no_holdings None (Some ok_response)) (btc_position 1 (Some 9000))
      ''BTC'' 2 None None))) ''BTC'') = - 1"
  by (simp add: execute_sell_order_def resolve_price_def fixed_api_def live_settings_def
        adjusted_amount_def MIN_ORDER_AMOUNT_KRW_def add_order_def new_order_def btc_position_def
        is_success_def ok_response_def create_trade_record_def update_balance_def
        balance_or_new_def Let_def)

text \<open>
  C7 (amended). A balance update with a non-positive amount (a sell) adds the amount to the
  total and leaves the average cost as it is; an update with a positive amount (a buy)
  adds the amount and sets the average cost to the volume-weighted average (to the price
  when the new total is not positive). Over a sequence of updates of a coin the total stays
  non-negative provided it starts non-negative and no sell takes more than the total
  recorded at that point.
\<close>

theorem position_update_invariant:
  "(amount \<le> 0 \<longrightarrow>
      b_total (balance_or_new (update_balance db coin amount price) coin)
        = b_total (balance_or_new db coin) + amount
    \<and> b_avg_buy_price (balance_or_new (update_balance db coin amount price) coin)
        = b_avg_buy_price (balance_or_new db coin))
   \<and> (0 < amount \<longrightarrow>
      b_total (balance_or_new (update_balance db coin amount price) coin)
        = b_total (balance_or_new db coin) + amount
    \<and> b_avg_buy_price (balance_or_new (update_balance db coin amount price) coin)
        = Some (if 0 < b_total (balance_or_new db coin) + amount
                then (b_total (balance_or_new db coin)
                        * (case b_avg_buy_price (balance_or_new db coin) of None \<Rightarrow> 0 | Some v \<Rightarrow> v)
                      + amount * price) / (b_total (balance_or_new db coin) + amount)
                else price))
   \<and> (0 \<le> b_total (balance_or_new db coin)
        \<longrightarrow> within_holdings (b_total (balance_or_new db coin)) ups
        \<longrightarrow> 0 \<le> b_total (balance_or_new (update_balances db coin ups) coin))"
  using update_balances_nonneg [of db coin ups]
  by (simp add: balance_or_new_update)

theorem position_update_invariant_witness:
  "b_total (balance_or_new (update_balance (btc_position 3 (Some 9000)) ''BTC'' (- 2) 10000) ''BTC'') = 1
   \<and> b_avg_buy_price (balance_or_new (update_balance (btc_position 3 (Some 9000)) ''BTC'' (- 2) 10000) ''BTC'')
        = Some 9000
   \<and> b_total (balance_or_new (update_balance (btc_position 3 (Some 9000)) ''BTC'' 1 10000) ''BTC'') = 4
   \<and> b_avg_buy_price (balance_or_new (update_balance (btc_position 3 (Some 9000)) ''BTC'' 1 10000) ''BTC'')
        = Some 9250
   \<and> within_holdings 3 [(1, 10000), (- 4, 11000)]
   \<and> 0 \<le> b_total (balance_or_new (update_balances (btc_position 3 (Some 9000)) ''BTC''
                [(1, 10000), (- 4, 11000)]) ''BTC'')"
proof -
  have b: "balance_or_new (btc_position 3 (Some 9000)) ''BTC''
             = \<lparr>b_coin = ''BTC'', b_total = 3, b_available = 3, b_in_use = 0,
                 b_avg_buy_price = Some 9000\<rparr>"
    by (simp add: balance_or_new_def btc_position_def)
  have w: "within_holdings 3 [(1, 10000), (- 4, 11000)]" by simp
  from position_update_invariant [of "- 2" "btc_position 3 (Some 9000)" "''BTC''" 10000
         "[(1, 10000), (- 4, 11000)]"]
       position_update_invariant [of 1 "btc_position 3 (Some 9000)" "''BTC''" 10000 "[]"]
       b w
  show ?thesis by simp
qed

lemma create_trade_record_sell_profit:
  "o_order_type order = SELL \<Longrightarrow>
   \<exists>t. trades (create_trade_record db order) = trades db @ [t] \<and> t_order_id t = o_id order
      \<and> t_trade_type t = SELL \<and> t_amount t = o_amount order \<and> t_price t = o_price order
      \<and> t_profit t =
          (case b_avg_buy_price (balance_or_new db (o_coin order)) of
             None \<Rightarrow> None
           | Some avg \<Rightarrow> if avg \<noteq> 0 then Some ((o_price order - avg) * o_amount order) else None)"
  by (simp add: create_trade_record_def balance_or_new_def Let_def split: option.splits)

lemma sell_update_keeps_avg:
  "amount \<le> 0 \<Longrightarrow>
   b_avg_buy_price (balance_or_new (update_balance db coin amount price) coin)
     = b_avg_buy_price (balance_or_new db coin)"
  by (simp add: balance_or_new_update)

lemma trades_swap_sell:
  assumes "o_order_type order = SELL" and "0 \<le> o_amount order"
  shows "trades (create_trade_record (update_balance db (o_coin order) (- o_amount order) p) order)
           = trades (update_balance (create_trade_record db order) (o_coin order) (- o_amount order) p)"
proof -
  have "b_avg_buy_price (balance_or_new (update_balance db (o_coin order) (- o_amount order) p) (o_coin order))
          = b_avg_buy_price (balance_or_new db (o_coin order))"
    using assms(2) by (simp add: sell_update_keeps_avg)
  then show ?thesis
    using assms(1)
    by (simp add: create_trade_record_def update_balance_fields Let_def balance_or_new_def
          update_balance_def split: option.splits)
qed

text \<open>
  C2, as stated, fails: a sell that completes on a coin without a balance row in the store
  (coins held at the exchange only) appends a trade without a profit.
\<close>

theorem sell_without_cost_basis_counterexample:
  "map o_status (orders (snd (projr (execute_sell_order live_settings
      (fixed_api (Some 10000) no_holdings None (Some ok_response)) empty_store ''BTC'' 2 None None))))
     = [COMPLETED]
   \<and> map t_profit (trades (snd (projr (execute_sell_order live_settings
      (fixed_api (Some 10000) no_holdings None (Some ok_response)) empty_store ''BTC'' 2 None None))))
     = [None]"
  by (simp add: execute_sell_order_def resolve_price_def fixed_api_def live_settings_def
        adjusted_amount_def MIN_ORDER_AMOUNT_KRW_def add_order_def new_order_def empty_store_def
        is_success_def ok_response_def create_trade_record_def update_balance_def
        balance_or_new_def Let_def)

text \<open>
  C2 (amended). A sell that completes (trading enabled, price \<open>p > 0\<close>, success answer)
  appends one trade for the order. Its profit is \<open>(p - avg) * amount sold\<close> when the balance
  row of the coin records a non-zero average cost \<open>avg\<close>, that of before the sale, and is
  absent when there is no balance row or the row has no average cost or a zero one.
  Creating the trade after the balance update instead of before it gives the same trades.
\<close>

theorem sell_profit_from_recorded_average_cost:
  assumes "trading_enabled settings"
      and "resolve_price api coin price = Some p" and "0 < p"
      and "is_success (sell_limit_order api coin p (adjusted_amount a p))"
  shows "\<exists>order db1 db' t.
           execute_sell_order settings api db coin a price sid = Inr (order, db')
         \<and> add_order db (new_order SELL coin (default_currency settings) (adjusted_amount a p) p
              (adjusted_amount a p * p) COMPLETED
              (result_order_id (sell_limit_order api coin p (adjusted_amount a p))) sid None)
             = (order, db1)
         \<and> o_status order = COMPLETED \<and> o_price order = p
         \<and> trades db' = trades db @ [t] \<and> t_order_id t = o_id order
         \<and> t_profit t =
              (case balances db coin of
                 None \<Rightarrow> None
               | Some bal \<Rightarrow>
                   (case b_avg_buy_price bal of
                      None \<Rightarrow> None
                    | Some avg \<Rightarrow>
                        if avg \<noteq> 0 then Some ((p - avg) * o_amount order) else None))
         \<and> db' = update_balance (create_trade_record db1 order) coin (- o_amount order) p
         \<and> trades (create_trade_record (update_balance db1 coin (- o_amount order) p) order)
             = trades db'"
proof -
  have p0: "p \<noteq> 0" using assms(3) by simp
  obtain order db1 where ao:
    "add_order db (new_order SELL coin (default_currency settings) (adjusted_amount a p) p
       (adjusted_amount a p * p) COMPLETED
       (result_order_id (sell_limit_order api coin p (adjusted_amount a p))) sid None) = (order, db1)"
    by (cases "add_order db (new_order SELL coin (default_currency settings) (adjusted_amount a p) p
       (adjusted_amount a p * p) COMPLETED
       (result_order_id (sell_limit_order api coin p (adjusted_amount a p))) sid None)")
  have ex: "execute_sell_order settings api db coin a price sid =
              Inr (order, update_balance (create_trade_record db1 order) coin (- adjusted_amount a p) p)"
    by (rule execute_sell_order_completed [OF assms(2) p0 assms(1) assms(4) ao])
  from add_order_orders [OF ao]
  have db1: "trades db1 = trades db" "balances db1 = balances db"
    and ord: "order = (new_order SELL coin (default_currency settings) (adjusted_amount a p) p
       (adjusted_amount a p * p) COMPLETED
       (result_order_id (sell_limit_order api coin p (adjusted_amount a p))) sid None)
         \<lparr>o_id := Suc (length (orders db))\<rparr>" by simp_all
  have flds: "o_order_type order = SELL" "o_coin order = coin" "o_amount order = adjusted_amount a p"
    "o_price order = p" "o_status order = COMPLETED"
    by (simp_all add: ord new_order_def)
  have avg1: "b_avg_buy_price (balance_or_new db1 coin) =
                (case balances db coin of None \<Rightarrow> None | Some bal \<Rightarrow> b_avg_buy_price bal)"
    using db1 by (simp add: balance_or_new_def split: option.splits)
  from create_trade_record_sell_profit [OF flds(1), of db1]
  obtain t where t: "trades (create_trade_record db1 order) = trades db1 @ [t]"
    "t_order_id t = o_id order"
    "t_profit t =
       (case b_avg_buy_price (balance_or_new db1 coin) of
          None \<Rightarrow> None
        | Some avg \<Rightarrow> if avg \<noteq> 0 then Some ((p - avg) * o_amount order) else None)"
    using flds by auto
  have tp: "t_profit t =
              (case balances db coin of
                 None \<Rightarrow> None
               | Some bal \<Rightarrow>
                   (case b_avg_buy_price bal of
                      None \<Rightarrow> None
                    | Some avg \<Rightarrow>
                        if avg \<noteq> 0 then Some ((p - avg) * o_amount order) else None))"
    using t(3) avg1 by (simp split: option.splits)
  have pos: "0 \<le> o_amount order" using adjusted_amount_pos [OF assms(3), of a] flds by simp
  have sw: "trades (create_trade_record (update_balance db1 coin (- o_amount order) p) order)
              = trades (update_balance (create_trade_record db1 order) coin (- o_amount order) p)"
    using trades_swap_sell [OF flds(1) pos, of db1 p] flds(2) by simp
  show ?thesis
    using ex ao flds t(1,2) tp db1 sw by (simp add: update_balance_fields)
qed

theorem sell_profit_from_recorded_average_cost_witness:
  "trading_enabled live_settings
   \<and> resolve_price (fixed_api (Some 10000) no_holdings None (Some ok_response)) ''BTC'' None = Some 10000
   \<and> is_success (sell_limit_order (fixed_api (Some 10000) no_holdings None (Some ok_response))
        ''BTC'' 10000 (adjusted_amount 2 10000))
   \<and> balances (btc_position 3 (Some 9000)) ''BTC''
        = Some \<lparr>b_coin = ''BTC'', b_total = 3, b_available = 3, b_in_use = 0,
                b_avg_buy_price = Some 9000\<rparr>
   \<and> (\<exists>order db' t.
         execute_sell_order live_settings (fixed_api (Some 10000) no_holdings None (Some ok_response))
           (btc_position 3 (Some 9000)) ''BTC'' 2 None None = Inr (order, db')
       \<and> o_status order = COMPLETED \<and> trades db' = [t] \<and> t_profit t = Some 2000)
   \<and> (\<exists>order db' t.
         execute_sell_order live_settings (fixed_api (Some 10000) no_holdings None (Some ok_response))
           (btc_position 3 None) ''BTC'' 2 None None = Inr (order, db')
       \<and> o_status order = COMPLETED \<and> trades db' = [t] \<and> t_profit t = None)"
proof -
  let ?api = "fixed_api (Some 10000) no_holdings None (Some ok_response)"
  let ?bal = "\<lparr>b_coin = ''BTC'', b_total = 3, b_available = 3, b_in_use = 0,
                b_avg_buy_price = Some (9000::real)\<rparr>"
  have t: "trading_enabled live_settings" by (simp add: live_settings_def)
  have r: "resolve_price ?api ''BTC'' None = Some 10000"
    by (simp add: resolve_price_def fixed_api_def)
  have p: "(0::real) < 10000" by simp
  have s: "is_success (sell_limit_order ?api ''BTC'' 10000 (adjusted_amount 2 10000))"
    by (simp add: is_success_def fixed_api_def ok_response_def)
  have b: "balances (btc_position 3 (Some 9000)) ''BTC'' = Some ?bal"
    by (simp add: btc_position_def)
  have am: "adjusted_amount 2 10000 = 2" by (simp add: adjusted_amount_def MIN_ORDER_AMOUNT_KRW_def)
  from sell_profit_from_recorded_average_cost [OF t r p s, of "btc_position 3 (Some 9000)" None]
  obtain order db1 db' tr where
    "execute_sell_order live_settings ?api (btc_position 3 (Some 9000)) ''BTC'' 2 None None = Inr (order, db')"
    "add_order (btc_position 3 (Some 9000)) (new_order SELL ''BTC'' (default_currency live_settings) (adjusted_amount 2 10000) 10000
              (adjusted_amount 2 10000 * 10000) COMPLETED
              (result_order_id (sell_limit_order ?api ''BTC'' 10000 (adjusted_amount 2 10000))) None None)
             = (order, db1)"
    "o_status order = COMPLETED"
    "trades db' = trades (btc_position 3 (Some 9000)) @ [tr]"
    "t_profit tr =
              (case balances (btc_position 3 (Some 9000)) ''BTC'' of
                 None \<Rightarrow> None
               | Some bal \<Rightarrow>
                   (case b_avg_buy_price bal of
                      None \<Rightarrow> None
                    | Some avg \<Rightarrow>
                        if avg \<noteq> 0 then Some ((10000 - avg) * o_amount order) else None))"
    by blast
  then have first: "\<exists>order db' t.
         execute_sell_order live_settings ?api (btc_position 3 (Some 9000)) ''BTC'' 2 None None = Inr (order, db')
       \<and> o_status order = COMPLETED \<and> trades db' = [t] \<and> t_profit t = Some 2000"
    using am by (auto simp: btc_position_def add_order_def new_order_def Let_def)
  from sell_profit_from_recorded_average_cost [OF t r p s, of "btc_position 3 None" None]
  obtain order2 db2' tr2 where
    "execute_sell_order live_settings ?api (btc_position 3 None) ''BTC'' 2 None None = Inr (order2, db2')"
    "o_status order2 = COMPLETED"
    "trades db2' = trades (btc_position 3 None) @ [tr2]"
    "t_profit tr2 =
              (case balances (btc_position 3 None) ''BTC'' of
                 None \<Rightarrow> None
               | Some bal \<Rightarrow>
                   (case b_avg_buy_price bal of
                      None \<Rightarrow> None
                    | Some avg \<Rightarrow>
                        if avg \<noteq> 0 then Some ((10000 - avg) * o_amount order2) else None))"
    by blast
  then have second: "\<exists>order db' t.
         execute_sell_order live_settings ?api (btc_position 3 None) ''BTC'' 2 None None = Inr (order, db')
       \<and> o_status order = COMPLETED \<and> trades db' = [t] \<and> t_profit t = None"
    by (auto simp: btc_position_def)
  show ?thesis using t r s b first second by blast
qed

section \<open>Properties of the signal library\<close>

lemma fle_NaN [simp]: "fle a NaN = False" "fle NaN b = False"
  by (simp_all add: fle_def)

lemma fge_NaN [simp]: "fge a NaN = False" "fge NaN b = False"
  by (simp_all add: fge_def)

lemma flt_NaN [simp]: "flt a NaN = False"
  by (cases a) simp_all

lemma fgt_NaN [simp]: "fgt a NaN = False" "fgt NaN b = False"
  by (simp_all add: fgt_def)

lemma moving_average_short:
  assumes "shorter (get_ohlcv api coin) (long_period + 1)"
  shows "\<not> should_buy api (MovingAverageStrategy short_period long_period) coin
       \<and> \<not> should_sell api (MovingAverageStrategy short_period long_period) coin"
proof (cases "get_ohlcv api coin")
  case None
  then show ?thesis by (simp add: get_moving_averages_def)
next
  case (Some df)
  with assms have len: "length df \<le> long_period" by (simp add: shorter_def)
  show ?thesis
  proof (cases "length df < long_period \<or> length df < 2")
    case True
    then show ?thesis using Some by (auto simp: get_moving_averages_def)
  next
    case False
    then have "length df - 2 + 1 < long_period" using len by arith
    then have "rolling_mean long_period (map c_close df) (length df - 2) = NaN"
      by (simp add: rolling_mean_def)
    then show ?thesis using Some False by (simp add: get_moving_averages_def Let_def)
  qed
qed

lemma rsi_short:
  assumes "shorter (get_ohlcv api coin) (period + 1)"
  shows "\<not> should_buy api (RSIStrategy period oversold overbought) coin
       \<and> \<not> should_sell api (RSIStrategy period oversold overbought) coin"
  using assms by (cases "get_ohlcv api coin") (simp_all add: calculate_rsi_def shorter_def)

lemma bollinger_short:
  assumes "shorter (get_ohlcv api coin) (period + 1)"
  shows "\<not> should_buy api (BollingerBandStrategy period std_dev) coin
       \<and> \<not> should_sell api (BollingerBandStrategy period std_dev) coin"
  using assms
  by (cases "get_ohlcv api coin") (simp_all add: calculate_bollinger_bands_def shorter_def)

lemma macd_short:
  assumes "shorter (get_ohlcv api coin) (slow_period + signal_period)"
  shows "\<not> should_buy api (MACDStrategy fast_period slow_period signal_period) coin
       \<and> \<not> should_sell api (MACDStrategy fast_period slow_period signal_period) coin"
  using assms by (cases "get_ohlcv api coin") (simp_all add: calculate_macd_def shorter_def)

lemma stochastic_short:
  assumes "shorter (get_ohlcv api coin) (k_period + d_period)"
  shows "\<not> should_buy api (StochasticStrategy k_period d_period oversold overbought) coin
       \<and> \<not> should_sell api (StochasticStrategy k_period d_period oversold overbought) coin"
  using assms
  by (cases "get_ohlcv api coin") (simp_all add: calculate_stochastic_def shorter_def)

lemma filter_none: "(\<And>x. x \<in> set xs \<Longrightarrow> \<not> P x) \<Longrightarrow> filter P xs = []"
  by (induction xs) auto

text \<open>
  C5, as stated, fails for the composite variant: with no candle series at all, a
  composite that asks for zero confirmations signals a buy.
\<close>

theorem composite_zero_confirmations_counterexample:
  "should_buy (fixed_api None no_holdings None None) (CompositeStrategy [RSIStrategy 14 30 70] 0) ''BTC''"
  by (simp add: calculate_rsi_def fixed_api_def)

text \<open>
  C5 (amended). For every strategy variant in which each composite asks for at least one
  confirmation, and every candle series that is absent or shorter than the lookback of
  the variant, \<open>should_buy\<close> and \<open>should_sell\<close> both return false (the functions are
  total: an exception inside a calculation is caught there and gives false).
\<close>

theorem short_history_no_signal:
  assumes "confirming s" and "short_history (get_ohlcv api coin) s"
  shows "\<not> should_buy api s coin \<and> \<not> should_sell api s coin"
  using assms
proof (induction s)
  case (MovingAverageStrategy sp lp)
  then show ?case using moving_average_short [of api coin lp sp] by simp
next
  case (RSIStrategy p os ob)
  then show ?case using rsi_short [of api coin p os ob] by simp
next
  case (BollingerBandStrategy p sd)
  then show ?case using bollinger_short [of api coin p sd] by simp
next
  case (MACDStrategy f sl sg)
  then show ?case using macd_short [of api coin sl sg f] by simp
next
  case (StochasticStrategy k d os ob)
  then show ?case using stochastic_short [of api coin k d os ob] by simp
next
  case (CompositeStrategy subs m)
  have sub: "\<And>x. x \<in> set subs \<Longrightarrow> \<not> should_buy api x coin \<and> \<not> should_sell api x coin"
    using CompositeStrategy by (simp add: list_all_iff)
  have b: "filter (\<lambda>s. should_buy api s coin) subs = []" using sub by (intro filter_none) simp
  have s: "filter (\<lambda>s. should_sell api s coin) subs = []" using sub by (intro filter_none) simp
  from CompositeStrategy.prems(1) have "1 \<le> m" by simp
  then show ?case using b s by simp
qed

theorem short_history_no_signal_witness:
  "confirming (CompositeStrategy [MovingAverageStrategy 1 2, RSIStrategy 14 30 70] 1)
   \<and> short_history (get_ohlcv (fixed_api None no_holdings (Some [flat_candle 5, flat_candle 7]) None) ''BTC'')
        (CompositeStrategy [MovingAverageStrategy 1 2, RSIStrategy 14 30 70] 1)
   \<and> \<not> should_buy (fixed_api None no_holdings (Some [flat_candle 5, flat_candle 7]) None)
          (CompositeStrategy [MovingAverageStrategy 1 2, RSIStrategy 14 30 70] 1) ''BTC''
   \<and> \<not> should_sell (fixed_api None no_holdings (Some [flat_candle 5, flat_candle 7]) None)
          (CompositeStrategy [MovingAverageStrategy 1 2, RSIStrategy 14 30 70] 1) ''BTC''"
proof -
  have c: "confirming (CompositeStrategy [MovingAverageStrategy 1 2, RSIStrategy 14 30 70] 1)"
    by simp
  have h: "short_history (get_ohlcv (fixed_api None no_holdings (Some [flat_candle 5, flat_candle 7]) None) ''BTC'')
        (CompositeStrategy [MovingAverageStrategy 1 2, RSIStrategy 14 30 70] 1)"
    by (simp add: fixed_api_def shorter_def)
  from short_history_no_signal [OF c h] c h show ?thesis by blast
qed

lemma gains_nonneg: "x \<in> set (gains close) \<Longrightarrow> 0 \<le> x"
  by (auto simp: gains_def split: fval.splits)

lemma avg_gains_nonneg:
  assumes "avg_gains period close = Fin g"
  shows "0 \<le> g"
proof -
  let ?win = "window period (gains close) (length close - 1)"
  from assms have p: "period \<noteq> 0" and g: "g = sum_list ?win / real period"
    by (auto simp: avg_gains_def rolling_mean_def split: if_splits)
  have "\<And>x. x \<in> set ?win \<Longrightarrow> 0 \<le> x"
    using gains_nonneg [of _ close]
    by (auto simp: window_def dest!: in_set_takeD in_set_dropD)
  then have "0 \<le> sum_list ?win" by (rule sum_list_nonneg)
  then show ?thesis using g p by simp
qed

lemma avg_gains_defined:
  assumes "avg_losses period close = Fin l"
  shows "\<exists>g. avg_gains period close = Fin g"
  using assms by (auto simp: avg_gains_def avg_losses_def rolling_mean_def split: if_splits)

text \<open>
  C9, as stated, fails: on a flat series the average loss and the average gain are both
  zero, the RSI is NaN and not 100, and \<open>should_sell\<close> is false although 100 is above the
  overbought threshold of 70.
\<close>

theorem rsi_flat_series_counterexample:
  "avg_losses 2 (map c_close [flat_candle 5, flat_candle 5, flat_candle 5]) = Fin 0
   \<and> calculate_rsi (fixed_api None no_holdings (Some [flat_candle 5, flat_candle 5, flat_candle 5]) None)
        2 ''BTC'' = Some NaN
   \<and> \<not> should_sell (fixed_api None no_holdings (Some [flat_candle 5, flat_candle 5, flat_candle 5]) None)
          (RSIStrategy 2 30 70) ''BTC''
   \<and> fgt (Fin 100) (Fin 70)"
  by (simp add: calculate_rsi_def fixed_api_def avg_losses_def avg_gains_def rolling_mean_def
        window_def gains_def losses_def diff_def flat_candle_def finf_def fsub_def fgt_def)

text \<open>
  C9 (amended). For a series of at least \<open>period + 1\<close> candles whose average loss over the
  period is zero, the average gain is a non-negative number. When it is positive the RSI
  is 100, so \<open>should_buy\<close> is the comparison \<open>100 < oversold\<close> and \<open>should_sell\<close> is
  \<open>100 > overbought\<close>. When it is zero as well the RSI is NaN and both signals are false.
\<close>

theorem rsi_zero_average_loss:
  assumes "get_ohlcv api coin = Some df" and "period + 1 \<le> length df"
      and "avg_losses period (map c_close df) = Fin 0"
  shows "(\<exists>g. avg_gains period (map c_close df) = Fin g \<and> 0 \<le> g)
       \<and> (avg_gains period (map c_close df) \<noteq> Fin 0 \<longrightarrow>
            calculate_rsi api period coin = Some (Fin 100)
          \<and> should_buy api (RSIStrategy period oversold overbought) coin = (100 < oversold)
          \<and> should_sell api (RSIStrategy period oversold overbought) coin = (100 > overbought))
       \<and> (avg_gains period (map c_close df) = Fin 0 \<longrightarrow>
            calculate_rsi api period coin = Some NaN
          \<and> \<not> should_buy api (RSIStrategy period oversold overbought) coin
          \<and> \<not> should_sell api (RSIStrategy period oversold overbought) coin)"
proof -
  from avg_gains_defined [OF assms(3)] obtain g where g: "avg_gains period (map c_close df) = Fin g"
    by blast
  have g0: "0 \<le> g" using g by (rule avg_gains_nonneg)
  have len: "\<not> length df < period + 1" using assms(2) by simp
  have rsi: "calculate_rsi api period coin =
               Some (fsub (Fin 100) (fdiv (Fin 100) (fadd (Fin 1) (fdiv (Fin g) (Fin 0)))))"
    using assms(1,3) g len by (simp add: calculate_rsi_def Let_def)
  show ?thesis
  proof (cases "g = 0")
    case True
    then have "calculate_rsi api period coin = Some NaN"
      using rsi by (simp add: finf_def fsub_def)
    then show ?thesis using g g0 True by simp
  next
    case False
    then have "0 < g" using g0 by simp
    then have "calculate_rsi api period coin = Some (Fin 100)"
      using rsi by (simp add: finf_def fsub_def)
    then show ?thesis using g g0 False by (simp add: fgt_def)
  qed
qed

theorem rsi_zero_average_loss_witness:
  "get_ohlcv (fixed_api None no_holdings (Some [flat_candle 5, flat_candle 6, flat_candle 8]) None) ''BTC''
     = Some [flat_candle 5, flat_candle 6, flat_candle 8]
   \<and> avg_losses 2 (map c_close [flat_candle 5, flat_candle 6, flat_candle 8]) = Fin 0
   \<and> avg_gains 2 (map c_close [flat_candle 5, flat_candle 6, flat_candle 8]) = Fin (3 / 2)
   \<and> calculate_rsi (fixed_api None no_holdings (Some [flat_candle 5, flat_candle 6, flat_candle 8]) None)
        2 ''BTC'' = Some (Fin 100)
   \<and> \<not> should_buy (fixed_api None no_holdings (Some [flat_candle 5, flat_candle 6, flat_candle 8]) None)
          (RSIStrategy 2 30 70) ''BTC''
   \<and> should_sell (fixed_api None no_holdings (Some [flat_candle 5, flat_candle 6, flat_candle 8]) None)
          (RSIStrategy 2 30 70) ''BTC''"
proof -
  let ?df = "[flat_candle 5, flat_candle 6, flat_candle 8]"
  let ?api = "fixed_api None no_holdings (Some ?df) None"
  have o: "get_ohlcv ?api ''BTC'' = Some ?df" by (simp add: fixed_api_def)
  have l: "2 + 1 \<le> length ?df" by simp
  have al: "avg_losses 2 (map c_close ?df) = Fin 0"
    by (simp add: avg_losses_def rolling_mean_def window_def losses_def diff_def flat_candle_def)
  have ag: "avg_gains 2 (map c_close ?df) = Fin (3 / 2)"
    by (simp add: avg_gains_def rolling_mean_def window_def gains_def diff_def flat_candle_def)
  from rsi_zero_average_loss [OF o l al, of 30 70] o al ag
  show ?thesis by (auto simp: fgt_def)
qed

section \<open>Properties of the backtest\<close>


section \<open>Properties of the scheduler\<close>

lemma log_execution_fields:
  "logs (log_execution db sm sg ex oid msg err) =
     logs db @ [\<lparr>l_strategy_id = s_id sm, l_strategy_name = s_name sm, l_coin = s_coin sm,
                 l_signal = sg, l_executed = ex, l_order_id = oid, l_message = msg,
                 l_error = err\<rparr>]"
  "users (log_execution db sm sg ex oid msg err) = users db"
  "strategy_rows (log_execution db sm sg ex oid msg err) = strategy_rows db"
  "db_store (log_execution db sm sg ex oid msg err) = db_store db"
  by (simp_all add: log_execution_def)

text \<open>
  What the budget check of the code compares. For a strategy row with a positive maximum
  buy amount, when the buy signal fires and the total of the completed buy orders of the
  row plus the configured \<open>trade_amount_krw\<close> (10000 by default) exceeds the maximum, the
  evaluation leaves the store as it is (no order row) and writes one log row with signal
  buy, \<open>executed = False\<close> and the message of the limit. The order the code would place is
  \<open>trade_amount\<close> coins at the current price, which the check does not look at.
\<close>

lemma budget_check_on_configured_amount:
  assumes "find_user db sm = Some user" and "has_credentials user"
      and "s_parameters sm \<noteq> InvalidJSON"
      and "make_strategy (s_strategy_type sm) (params_of sm) = Some (Inr strategy)"
      and "should_buy (user_api mk_api user) strategy (s_coin sm)"
      and "s_max_buy_amount sm = Some limit" and "0 < limit"
      and "total_invested db sm + get_num (numbers (params_of sm)) ''trade_amount_krw'' 10000
             > limit"
  shows "\<exists>db'. execute_strategy settings mk_api db sm = Inr db'
           \<and> db_store db' = db_store db
           \<and> logs db' = logs db @
                [\<lparr>l_strategy_id = s_id sm, l_strategy_name = s_name sm, l_coin = s_coin sm,
                  l_signal = Some ''buy'', l_executed = False, l_order_id = None,
                  l_message = Some (BuySkippedLimit (total_invested db sm) limit),
                  l_error = None\<rparr>]"
  using assms
  by (simp add: execute_strategy_def Let_def log_execution_fields)

lemma falling_series_buy:
  "should_buy (fixed_api (Some 8) no_holdings (Some [flat_candle 10, flat_candle 9, flat_candle 8]) (Some ok_response))
     (RSIStrategy 2 30 70) ''BTC''"
  by (simp add: calculate_rsi_def fixed_api_def avg_losses_def avg_gains_def rolling_mean_def
        window_def gains_def losses_def diff_def flat_candle_def finf_def fsub_def)

lemma budget_check_on_configured_amount_example:
  "total_invested (demo_db (invested_store 45000) [demo_row ''rsi'' (numeric_params [(''period'', 2)]) (Some 50000)])
       (demo_row ''rsi'' (numeric_params [(''period'', 2)]) (Some 50000)) = 45000
   \<and> get_num (numbers (params_of (demo_row ''rsi'' (numeric_params [(''period'', 2)]) (Some 50000))))
        ''trade_amount_krw'' 10000 = 10000
   \<and> (\<exists>db'. execute_strategy live_settings
          (mk_fixed_api (Some 8) no_holdings (Some [flat_candle 10, flat_candle 9, flat_candle 8]) (Some ok_response))
          (demo_db (invested_store 45000) [demo_row ''rsi'' (numeric_params [(''period'', 2)]) (Some 50000)])
          (demo_row ''rsi'' (numeric_params [(''period'', 2)]) (Some 50000)) = Inr db'
        \<and> orders (db_store db') = orders (invested_store 45000)
        \<and> map l_executed (logs db') = [False]
        \<and> map l_message (logs db') = [Some (BuySkippedLimit 45000 50000)])"
proof -
  let ?row = "demo_row ''rsi'' (numeric_params [(''period'', 2)]) (Some 50000)"
  let ?db = "demo_db (invested_store 45000) [?row]"
  let ?mk = "mk_fixed_api (Some 8) no_holdings (Some [flat_candle 10, flat_candle 9, flat_candle 8]) (Some ok_response)"
  have u: "find_user ?db ?row = Some demo_user"
    by (simp add: find_user_def demo_db_def demo_row_def demo_user_def)
  have c: "has_credentials demo_user"
    by (simp add: has_credentials_def truthy_string_def demo_user_def)
  have j: "s_parameters ?row \<noteq> InvalidJSON"
    by (simp add: demo_row_def numeric_params_def)
  have m: "make_strategy (s_strategy_type ?row) (params_of ?row) = Some (Inr (RSIStrategy 2 30 70))"
    by (simp add: make_strategy_def indicator_strategy_def demo_row_def numeric_params_def
          params_of_def get_nat_def get_num_def)
  have b: "should_buy (user_api ?mk demo_user) (RSIStrategy 2 30 70) (s_coin ?row)"
    using falling_series_buy by (simp add: user_api_def mk_fixed_api_def demo_row_def)
  have l: "s_max_buy_amount ?row = Some 50000" by (simp add: demo_row_def)
  have p: "(0::real) < 50000" by simp
  have t: "total_invested ?db ?row = 45000"
    by (simp add: total_invested_def demo_db_def invested_store_def demo_row_def)
  have k: "get_num (numbers (params_of ?row)) ''trade_amount_krw'' 10000 = 10000"
    by (simp add: get_num_def params_of_def demo_row_def numeric_params_def)
  have e: "total_invested ?db ?row + get_num (numbers (params_of ?row)) ''trade_amount_krw'' 10000
             > 50000"
    using t k by simp
  from budget_check_on_configured_amount [OF u c j m b l p e, of live_settings]
  obtain db' where "execute_strategy live_settings ?mk ?db ?row = Inr db'"
    "db_store db' = db_store ?db"
    "logs db' = logs ?db @
                [\<lparr>l_strategy_id = s_id ?row, l_strategy_name = s_name ?row, l_coin = s_coin ?row,
                  l_signal = Some ''buy'', l_executed = False, l_order_id = None,
                  l_message = Some (BuySkippedLimit (total_invested ?db ?row) 50000),
                  l_error = None\<rparr>]"
    by blast
  then show ?thesis using t k by (auto simp: demo_db_def)
qed

text \<open>
  C8. The claim asks that a buy whose notional, added to the completed buys of the row,
  exceeds the maximum buy amount is skipped without an order row. The code diverges: with a
  maximum of 50000, completed buys of 45000, \<open>trade_amount\<close> 1250 at a price of 8 (a notional
  of 10000) and \<open>trade_amount_krw\<close> 4000, the check passes (49000), the buy is placed and
  completes, the log row says executed, and the completed buys of the row total 55000.
\<close>

theorem buy_placed_over_budget:
  "s_max_buy_amount (demo_row ''rsi''
       (numeric_params [(''period'', 2), (''trade_amount'', 1250), (''trade_amount_krw'', 4000)])
       (Some 50000)) = Some 50000
   \<and> total_invested
        (demo_db (invested_store 45000) [demo_row ''rsi''
           (numeric_params [(''period'', 2), (''trade_amount'', 1250), (''trade_amount_krw'', 4000)])
           (Some 50000)])
        (demo_row ''rsi''
           (numeric_params [(''period'', 2), (''trade_amount'', 1250), (''trade_amount_krw'', 4000)])
           (Some 50000)) = 45000
   \<and> map o_total (orders (db_store (projr (execute_strategy live_settings
        (mk_fixed_api (Some 8) no_holdings (Some [flat_candle 10, flat_candle 9, flat_candle 8])
           (Some ok_response))
        (demo_db (invested_store 45000) [demo_row ''rsi''
           (numeric_params [(''period'', 2), (''trade_amount'', 1250), (''trade_amount_krw'', 4000)])
           (Some 50000)])
        (demo_row ''rsi''
           (numeric_params [(''period'', 2), (''trade_amount'', 1250), (''trade_amount_krw'', 4000)])
           (Some 50000)))))) = [45000, 10000]
   \<and> map o_status (orders (db_store (projr (execute_strategy live_settings
        (mk_fixed_api (Some 8) no_holdings (Some [flat_candle 10, flat_candle 9, flat_candle 8])
           (Some ok_response))
        (demo_db (invested_store 45000) [demo_row ''rsi''
           (numeric_params [(''period'', 2), (''trade_amount'', 1250), (''trade_amount_krw'', 4000)])
           (Some 50000)])
        (demo_row ''rsi''
           (numeric_params [(''period'', 2), (''trade_amount'', 1250), (''trade_amount_krw'', 4000)])
           (Some 50000)))))) = [COMPLETED, COMPLETED]
   \<and> map l_message (logs (projr (execute_strategy live_settings
        (mk_fixed_api (Some 8) no_holdings (Some [flat_candle 10, flat_candle 9, flat_candle 8])
           (Some ok_response))
        (demo_db (invested_store 45000) [demo_row ''rsi''
           (numeric_params [(''period'', 2), (''trade_amount'', 1250), (''trade_amount_krw'', 4000)])
           (Some 50000)])
        (demo_row ''rsi''
           (numeric_params [(''period'', 2), (''trade_amount'', 1250), (''trade_amount_krw'', 4000)])
           (Some 50000))))) = [Some (BuyOrder True 1250 ''BTC'')]
   \<and> total_invested
        (projr (execute_strategy live_settings
           (mk_fixed_api (Some 8) no_holdings (Some [flat_candle 10, flat_candle 9, flat_candle 8])
              (Some ok_response))
           (demo_db (invested_store 45000) [demo_row ''rsi''
              (numeric_params [(''period'', 2), (''trade_amount'', 1250), (''trade_amount_krw'', 4000)])
              (Some 50000)])
           (demo_row ''rsi''
              (numeric_params [(''period'', 2), (''trade_amount'', 1250), (''trade_amount_krw'', 4000)])
              (Some 50000))))
        (demo_row ''rsi''
           (numeric_params [(''period'', 2), (''trade_amount'', 1250), (''trade_amount_krw'', 4000)])
           (Some 50000)) = 55000"
  by (simp add: execute_strategy_def log_execution_def find_user_def has_credentials_def
        truthy_string_def user_api_def params_of_def make_strategy_def indicator_strategy_def
        get_num_def get_nat_def total_invested_def demo_db_def demo_row_def demo_user_def
        numeric_params_def mk_fixed_api_def fixed_api_def invested_store_def live_settings_def
        execute_buy_order_def resolve_price_def adjusted_amount_def MIN_ORDER_AMOUNT_KRW_def
        add_order_def new_order_def is_success_def ok_response_def result_order_id_def
        create_trade_record_def update_balance_def balance_or_new_def calculate_rsi_def
        avg_losses_def avg_gains_def rolling_mean_def window_def gains_def losses_def diff_def
        flat_candle_def finf_def fsub_def Let_def)

lemma execute_sell_order_store_result:
  "(\<exists>order st'. execute_sell_order settings api st coin a price sid = Inr (order, st'))
   \<or> (\<exists>e. execute_sell_order settings api st coin a price sid = Inl e)"
  by (cases "execute_sell_order settings api st coin a price sid") auto

lemma execute_profit_target_sell_logs:
  "\<exists>e. logs (execute_profit_target_sell settings db sm api coin amount reason) = logs db @ [e]
       \<and> l_strategy_id e = s_id sm"
  "users (execute_profit_target_sell settings db sm api coin amount reason) = users db"
  "strategy_rows (execute_profit_target_sell settings db sm api coin amount reason)
     = strategy_rows db"
  by (auto simp: execute_profit_target_sell_def log_execution_def split: sum.splits prod.splits)

lemma risk_exit_user:
  "risk_exit mk_api db sm = Some r \<Longrightarrow> \<exists>user. find_user db sm = Some user"
  by (cases "find_user db sm") (simp_all add: risk_exit_def)

lemma check_risk_logs:
  "logs (check_profit_target_and_stop_loss settings mk_api db sm) =
     (if risk_exit mk_api db sm = None then logs db
      else logs db @ [last (logs (check_profit_target_and_stop_loss settings mk_api db sm))])
   \<and> (risk_exit mk_api db sm \<noteq> None \<longrightarrow>
        l_strategy_id (last (logs (check_profit_target_and_stop_loss settings mk_api db sm)))
          = s_id sm)"
proof (cases "risk_exit mk_api db sm")
  case None
  then show ?thesis by (simp add: check_profit_target_and_stop_loss_def)
next
  case (Some r)
  obtain amount reason where r: "r = (amount, reason)" by (cases r)
  from risk_exit_user [OF Some] obtain user where u: "find_user db sm = Some user" by blast
  have eq: "check_profit_target_and_stop_loss settings mk_api db sm =
          execute_profit_target_sell settings db sm (user_api mk_api user) (s_coin sm) amount reason"
    using Some r u by (simp add: check_profit_target_and_stop_loss_def)
  from execute_profit_target_sell_logs(1) [of settings db sm "user_api mk_api user" "s_coin sm" amount reason]
  obtain e where "logs (execute_profit_target_sell settings db sm (user_api mk_api user) (s_coin sm) amount reason)
      = logs db @ [e]" "l_strategy_id e = s_id sm" by blast
  then show ?thesis using Some eq by simp
qed

lemma check_risk_frame:
  "users (check_profit_target_and_stop_loss settings mk_api db sm) = users db"
  "strategy_rows (check_profit_target_and_stop_loss settings mk_api db sm) = strategy_rows db"
  by (auto simp: check_profit_target_and_stop_loss_def execute_profit_target_sell_logs
        split: option.splits prod.splits)

lemma risk_fold_frame:
  "users (fold (\<lambda>sm d. check_profit_target_and_stop_loss settings mk_api d sm) rows db) = users db
   \<and> strategy_rows (fold (\<lambda>sm d. check_profit_target_and_stop_loss settings mk_api d sm) rows db)
       = strategy_rows db"
  by (induction rows arbitrary: db) (simp_all add: check_risk_frame)

lemma risk_pass_frame:
  "users (check_profit_targets_and_stop_losses settings mk_api db) = users db"
  "strategy_rows (check_profit_targets_and_stop_losses settings mk_api db) = strategy_rows db"
  by (simp_all add: check_profit_targets_and_stop_losses_def risk_fold_frame)

lemma check_strategy_entry:
  assumes "signal_pass_entry (users db) sm"
  shows "\<exists>e. logs (check_strategy settings mk_api db sm) = logs db @ [e]
            \<and> l_strategy_id e = s_id sm"
proof -
  from assms obtain user where u: "find_user db sm = Some user"
    by (auto simp: signal_pass_entry_def find_user_def split: option.splits)
  show ?thesis
  proof (cases "has_credentials user")
    case False
    then show ?thesis using u
      by (simp add: check_strategy_def execute_strategy_def log_execution_def)
  next
    case True
    with assms u have j: "s_parameters sm \<noteq> InvalidJSON"
      and m: "make_strategy (s_strategy_type sm) (params_of sm) \<noteq> None"
      by (auto simp: signal_pass_entry_def find_user_def)
    from m obtain r where r: "make_strategy (s_strategy_type sm) (params_of sm) = Some r" by blast
    show ?thesis
    proof (cases r)
      case (Inl err)
      then show ?thesis using u True j r
        by (simp add: check_strategy_def execute_strategy_def log_execution_def Let_def)
    next
      case (Inr strategy)
      then show ?thesis using u True j r
        by (auto simp: check_strategy_def execute_strategy_def log_execution_def Let_def
              split: sum.splits prod.splits)
    qed
  qed
qed

lemma check_strategy_frame:
  "users (check_strategy settings mk_api db sm) = users db"
  "strategy_rows (check_strategy settings mk_api db sm) = strategy_rows db"
  by (auto simp: check_strategy_def execute_strategy_def log_execution_def Let_def
        split: sum.splits prod.splits option.splits)

lemma signal_fold_count:
  assumes "list_all (signal_pass_entry (users db)) rows"
  shows "length (logs (fold (\<lambda>sm d. check_strategy settings mk_api d sm) rows db))
           = length (logs db) + length rows
       \<and> users (fold (\<lambda>sm d. check_strategy settings mk_api d sm) rows db) = users db"
  using assms
proof (induction rows arbitrary: db)
  case Nil
  then show ?case by simp
next
  case (Cons sm rows)
  let ?d = "check_strategy settings mk_api db sm"
  from Cons.prems have e: "signal_pass_entry (users db) sm"
    and rest: "list_all (signal_pass_entry (users db)) rows" by simp_all
  from check_strategy_entry [OF e, of settings mk_api]
  have len: "length (logs ?d) = length (logs db) + 1" by auto
  have us: "users ?d = users db" by (rule check_strategy_frame)
  from Cons.IH [of ?d] rest us len show ?case by simp
qed

text \<open>
  C1, as stated, fails: a cycle with one enabled row whose profit target is reached writes
  two log rows for it, the one of the risk exit and the one of the signal pass.
\<close>

theorem risk_exit_extra_entry_counterexample:
  "length (filter s_enabled (strategy_rows
      (demo_db empty_store [demo_row ''rsi'' (numeric_params [(''profit_target'', 5)]) None]))) = 1
   \<and> map l_message (logs (run_strategy_checks default_settings
        (mk_fixed_api (Some 200) (holding 1 100) None (Some ok_response))
        (demo_db empty_store [demo_row ''rsi'' (numeric_params [(''profit_target'', 5)]) None])))
      = [Some (RiskSellOrder ''Profit target'' (121 / 4) ''BTC''), Some NoSignal]"
  by (simp add: run_strategy_checks_def check_profit_targets_and_stop_losses_def
        check_profit_target_and_stop_loss_def risk_exit_def execute_profit_target_sell_def
        check_strategy_def execute_strategy_def log_execution_def find_user_def
        has_credentials_def truthy_string_def user_api_def params_of_def make_strategy_def
        indicator_strategy_def get_num_def get_nat_def demo_db_def demo_row_def demo_user_def
        numeric_params_def mk_fixed_api_def fixed_api_def holding_def empty_store_def
        default_settings_def execute_sell_order_def resolve_price_def adjusted_amount_def
        MIN_ORDER_AMOUNT_KRW_def add_order_def new_order_def calculate_rsi_def Let_def)

text \<open>
  C1 (amended). In a cycle in which every enabled row has an owner and, where the owner has
  credentials, parameters that parse and a known strategy type, the signal pass writes
  exactly one log row for each enabled row; an evaluation of such a row appends one row
  with the id of the strategy. A risk exit appends one row of its own for its strategy in
  the risk pass (no row when there is no exit), and the signal pass of the same cycle
  still evaluates that strategy.
\<close>

theorem log_entries_per_cycle:
  assumes "list_all (signal_pass_entry (users db)) (filter s_enabled (strategy_rows db))"
  shows "length (logs (run_strategy_checks settings mk_api db))
           = length (logs (check_profit_targets_and_stop_losses settings mk_api db))
             + length (filter s_enabled (strategy_rows db))
       \<and> (signal_pass_entry (users d) sm \<longrightarrow>
            (\<exists>e. logs (check_strategy settings mk_api d sm) = logs d @ [e]
                 \<and> l_strategy_id e = s_id sm))
       \<and> (risk_exit mk_api d sm \<noteq> None \<longrightarrow>
            (\<exists>e. logs (check_profit_target_and_stop_loss settings mk_api d sm) = logs d @ [e]
                 \<and> l_strategy_id e = s_id sm))
       \<and> (risk_exit mk_api d sm = None \<longrightarrow>
            logs (check_profit_target_and_stop_loss settings mk_api d sm) = logs d)"
proof -
  let ?db1 = "check_profit_targets_and_stop_losses settings mk_api db"
  have fr: "users ?db1 = users db" "strategy_rows ?db1 = strategy_rows db"
    by (rule risk_pass_frame)+
  have a: "list_all (signal_pass_entry (users ?db1)) (filter s_enabled (strategy_rows db))"
    using assms fr by simp
  from signal_fold_count [OF a, of settings mk_api]
  have c: "length (logs (fold (\<lambda>sm d. check_strategy settings mk_api d sm)
                          (filter s_enabled (strategy_rows db)) ?db1))
             = length (logs ?db1) + length (filter s_enabled (strategy_rows db))" by simp
  have cycle: "length (logs (run_strategy_checks settings mk_api db))
           = length (logs ?db1) + length (filter s_enabled (strategy_rows db))"
  proof (cases "filter s_enabled (strategy_rows db) = []")
    case True
    then show ?thesis using fr by (simp add: run_strategy_checks_def Let_def)
  next
    case False
    then show ?thesis using fr c by (simp add: run_strategy_checks_def Let_def)
  qed
  have sig: "signal_pass_entry (users d) sm \<longrightarrow>
            (\<exists>e. logs (check_strategy settings mk_api d sm) = logs d @ [e]
                 \<and> l_strategy_id e = s_id sm)"
    using check_strategy_entry [of d sm settings mk_api] by blast
  have risk: "(risk_exit mk_api d sm \<noteq> None \<longrightarrow>
            (\<exists>e. logs (check_profit_target_and_stop_loss settings mk_api d sm) = logs d @ [e]
                 \<and> l_strategy_id e = s_id sm))
       \<and> (risk_exit mk_api d sm = None \<longrightarrow>
            logs (check_profit_target_and_stop_loss settings mk_api d sm) = logs d)"
    using check_risk_logs [of settings mk_api d sm] by auto
  show ?thesis using cycle sig risk by blast
qed

theorem log_entries_per_cycle_witness:
  "list_all (signal_pass_entry (users
       (demo_db empty_store [demo_row ''rsi'' (numeric_params [(''profit_target'', 5)]) None])))
     (filter s_enabled (strategy_rows
       (demo_db empty_store [demo_row ''rsi'' (numeric_params [(''profit_target'', 5)]) None])))
   \<and> risk_exit (mk_fixed_api (Some 200) (holding 1 100) None (Some ok_response))
        (demo_db empty_store [demo_row ''rsi'' (numeric_params [(''profit_target'', 5)]) None])
        (demo_row ''rsi'' (numeric_params [(''profit_target'', 5)]) None)
      = Some (1, ''profit_target'')
   \<and> length (logs (check_profit_targets_and_stop_losses default_settings
        (mk_fixed_api (Some 200) (holding 1 100) None (Some ok_response))
        (demo_db empty_store [demo_row ''rsi'' (numeric_params [(''profit_target'', 5)]) None])))
      = 1
   \<and> length (logs (run_strategy_checks default_settings
        (mk_fixed_api (Some 200) (holding 1 100) None (Some ok_response))
        (demo_db empty_store [demo_row ''rsi'' (numeric_params [(''profit_target'', 5)]) None])))
      = 2"
proof -
  let ?row = "demo_row ''rsi'' (numeric_params [(''profit_target'', 5)]) None"
  let ?db = "demo_db empty_store [?row]"
  let ?mk = "mk_fixed_api (Some 200) (holding 1 100) None (Some ok_response)"
  have rows: "filter s_enabled (strategy_rows ?db) = [?row]"
    by (simp add: demo_db_def demo_row_def)
  have g: "list_all (signal_pass_entry (users ?db)) (filter s_enabled (strategy_rows ?db))"
    by (simp add: signal_pass_entry_def demo_db_def demo_row_def demo_user_def
          has_credentials_def truthy_string_def numeric_params_def make_strategy_def
          indicator_strategy_def)
  have r: "risk_exit ?mk ?db ?row = Some (1, ''profit_target'')"
    by (simp add: risk_exit_def find_user_def demo_db_def demo_row_def demo_user_def
          has_credentials_def truthy_string_def numeric_params_def params_of_def get_num_def
          user_api_def mk_fixed_api_def fixed_api_def holding_def Let_def)
  from log_entries_per_cycle [OF g, of default_settings ?mk ?db ?row] r
  obtain e where e: "logs (check_profit_target_and_stop_loss default_settings ?mk ?db ?row)
                       = logs ?db @ [e]"
    and cyc: "length (logs (run_strategy_checks default_settings ?mk ?db))
           = length (logs (check_profit_targets_and_stop_losses default_settings ?mk ?db))
             + length (filter s_enabled (strategy_rows ?db))"
    by auto
  have one: "length (logs (check_profit_targets_and_stop_losses default_settings ?mk ?db)) = 1"
    using e rows by (simp add: check_profit_targets_and_stop_losses_def) (simp add: demo_db_def)
  show ?thesis using g r one cyc rows by simp
qed

end
